theory Spec2Isabelle
  imports Main
begin

section \<open>JavaScript strings\<close>

text \<open>
  A JavaScript string is a sequence of UTF-16 code units. The regular expressions of the
  runner distinguish code units that do not fit a byte (the line separators U+2028 and
  U+2029), and \<open>substring\<close> counts code units, so a string is modelled as the list of
  its code units, each a natural number below 65536. \<open>js\<close> turns an ASCII literal into
  such a list.
\<close>

type_synonym jschar = nat
type_synonym jsstring = "nat list"

definition js :: "string \<Rightarrow> jsstring" where
  "js s = map of_char s"

abbreviation (input) LF :: jschar where "LF \<equiv> 10"
abbreviation (input) CR :: jschar where "CR \<equiv> 13"
abbreviation (input) ESC :: jschar where "ESC \<equiv> 27"

text \<open>The LineTerminator code points of ECMAScript: LF, CR, LS and PS.\<close>

definition isLineTerminator :: "jschar \<Rightarrow> bool" where
  "isLineTerminator c \<longleftrightarrow> c = LF \<or> c = CR \<or> c = 0x2028 \<or> c = 0x2029"

text \<open>
  WhiteSpace and LineTerminator code points, the ones \<open>String.prototype.trim\<close> strips:
  TAB, LF, VT, FF, CR, SP, NBSP, the space separators of Unicode, LS, PS and the BOM.
\<close>

definition isTrimmable :: "jschar \<Rightarrow> bool" where
  "isTrimmable c \<longleftrightarrow>
     (9 \<le> c \<and> c \<le> 13) \<or> c = 32 \<or> c = 0xA0 \<or> c = 0x1680 \<or>
     (0x2000 \<le> c \<and> c \<le> 0x200A) \<or> c = 0x2028 \<or> c = 0x2029 \<or>
     c = 0x202F \<or> c = 0x205F \<or> c = 0x3000 \<or> c = 0xFEFF"

definition trim :: "jsstring \<Rightarrow> jsstring" where
  "trim s = rev (dropWhile isTrimmable (rev (dropWhile isTrimmable s)))"

definition startsWith :: "jsstring \<Rightarrow> jsstring \<Rightarrow> bool" where
  "startsWith s p \<longleftrightarrow> take (length p) s = p"

text \<open>\<open>s.substring(a, b)\<close> for \<open>a \<le> b\<close>; both ends are clamped to the length.\<close>

definition substring :: "jsstring \<Rightarrow> nat \<Rightarrow> nat \<Rightarrow> jsstring" where
  "substring s a b = take (b - a) (drop a s)"

text \<open>\<open>s.split('\n')\<close>: the pieces between the separators; never the empty list.\<close>

fun split_on :: "jschar \<Rightarrow> jsstring \<Rightarrow> jsstring list" where
  "split_on sep [] = [[]]"
| "split_on sep (c # s) =
     (if c = sep then [] # split_on sep s
      else (case split_on sep s of
              [] \<Rightarrow> [[c]]
            | l # ls \<Rightarrow> (c # l) # ls))"

text \<open>\<open>xs.join(sep)\<close> for an array of strings.\<close>

fun join :: "jsstring \<Rightarrow> jsstring list \<Rightarrow> jsstring" where
  "join sep [] = []"
| "join sep [x] = x"
| "join sep (x # y # ys) = x @ sep @ join sep (y # ys)"

section \<open>Global regular-expression replacement\<close>

text \<open>
  \<open>text.replace(re, rep)\<close> with a global \<open>re\<close> scans the subject from left to right. At
  each index it tries the expression; a match of \<open>n > 0\<close> code units is replaced and the
  scan resumes behind it, otherwise the code unit is kept and the scan moves one unit on.
  A matcher receives the code unit before the index (\<open>None\<close> at index 0), which is all
  that the assertion \<open>^\<close> looks at, and the rest of the subject. It answers with the
  number of code units matched and the replacement text. Matching always looks at the
  subject, never at text already replaced.
\<close>

type_synonym matcher = "jschar option \<Rightarrow> jsstring \<Rightarrow> (nat \<times> jsstring) option"

function replace_global :: "matcher \<Rightarrow> jschar option \<Rightarrow> jsstring \<Rightarrow> jsstring" where
  "replace_global m prev [] = (case m prev [] of Some (n, rep) \<Rightarrow> rep | None \<Rightarrow> [])"
| "replace_global m prev (c # s) =
     (case m prev (c # s) of
        Some (n, rep) \<Rightarrow>
          if 0 < n \<and> n \<le> length (c # s)
          then rep @ replace_global m (Some ((c # s) ! (n - 1))) (drop n (c # s))
          else rep @ c # replace_global m (Some c) s
      | None \<Rightarrow> c # replace_global m (Some c) s)"
  by pat_completeness auto
termination
  by (relation "measure (\<lambda>(m, prev, s). length s)") auto

subsection \<open>The expressions of the runner\<close>

text \<open>
  \<open>/^.*\r([^\r\n]*)/gm\<close>, replaced by \<open>$1\<close>. With the flag \<open>m\<close> the assertion \<open>^\<close> holds
  at index 0 and behind a line terminator. The dot matches every code unit but a line
  terminator, so \<open>.*\<close> takes the longest run free of them; every code unit of that run
  differs from CR, hence giving back part of the run never helps and the expression
  matches exactly when the run is followed by CR. The group then takes the longest run
  free of CR and LF.
\<close>

definition atLineStart :: "jschar option \<Rightarrow> bool" where
  "atLineStart prev = (case prev of None \<Rightarrow> True | Some p \<Rightarrow> isLineTerminator p)"

definition match_overwrite :: matcher where
  "match_overwrite prev s =
     (if atLineStart prev then
        (let run = takeWhile (\<lambda>c. \<not> isLineTerminator c) s
         in case dropWhile (\<lambda>c. \<not> isLineTerminator c) s of
              [] \<Rightarrow> None
            | c # r \<Rightarrow>
                if c = CR
                then (let g = takeWhile (\<lambda>x. x \<noteq> CR \<and> x \<noteq> LF) r
                      in Some (length run + 1 + length g, g))
                else None)
      else None)"

text \<open>
  \<open>ANSI_ESCAPE_SEQUENCE\<close>, \<open>/\u001B\[[0-9;?]*[ -/]*[@-~]/g\<close>, replaced by the empty
  string. The three classes are pairwise disjoint, so the longest runs are the only way
  to match.
\<close>

definition isAnsiParam :: "jschar \<Rightarrow> bool" where
  "isAnsiParam c \<longleftrightarrow> (0x30 \<le> c \<and> c \<le> 0x39) \<or> c = 0x3B \<or> c = 0x3F"

definition isAnsiIntermediate :: "jschar \<Rightarrow> bool" where
  "isAnsiIntermediate c \<longleftrightarrow> 0x20 \<le> c \<and> c \<le> 0x2F"

definition isAnsiFinal :: "jschar \<Rightarrow> bool" where
  "isAnsiFinal c \<longleftrightarrow> 0x40 \<le> c \<and> c \<le> 0x7E"

definition match_ansi :: matcher where
  "match_ansi prev s =
     (case s of
        e # b # r \<Rightarrow>
          if e = ESC \<and> b = 0x5B then
            (let ps = takeWhile isAnsiParam r;
                 r1 = dropWhile isAnsiParam r;
                 is = takeWhile isAnsiIntermediate r1
             in case dropWhile isAnsiIntermediate r1 of
                  [] \<Rightarrow> None
                | f # _ \<Rightarrow>
                    if isAnsiFinal f then Some (2 + length ps + length is + 1, [])
                    else None)
          else None
      | _ \<Rightarrow> None)"

text \<open>\<open>/\r\n/g\<close> to LF, \<open>/\r/g\<close> to LF, and \<open>/\n{3,}/g\<close> to two LF.\<close>

definition match_crlf :: matcher where
  "match_crlf prev s =
     (case s of
        a # b # _ \<Rightarrow> if a = CR \<and> b = LF then Some (2, [LF]) else None
      | _ \<Rightarrow> None)"

definition match_cr :: matcher where
  "match_cr prev s = (case s of a # _ \<Rightarrow> if a = CR then Some (1, [LF]) else None | _ \<Rightarrow> None)"

definition match_newlines :: matcher where
  "match_newlines prev s =
     (let run = takeWhile (\<lambda>c. c = LF) s
      in if 3 \<le> length run then Some (length run, [LF, LF]) else None)"

section \<open>Output normalization of the runner\<close>

text \<open>
  \<open>normalize\<close> of \<open>runLocal\<close>; \<open>plainLogs\<close> is the value of
  \<open>(process.env.CODEMACHINE_PLAIN_LOGS || '').toString() === '1'\<close>.
\<close>

definition normalize :: "bool \<Rightarrow> jsstring \<Rightarrow> jsstring" where
  "normalize plainLogs text =
     (let result = replace_global match_overwrite None text;
          result = (if plainLogs then replace_global match_ansi None result else result);
          result = replace_global match_crlf None result;
          result = replace_global match_cr None result;
          result = replace_global match_newlines None result
      in result)"

section \<open>Values and errors of the JavaScript runtime\<close>

text \<open>
  A path of the file system is the list of its components below the root; \<open>path.join(p, n)\<close>
  with a plain name \<open>n\<close> appends a component and \<open>path.dirname\<close> removes the last one.
\<close>

type_synonym path = "jsstring list"

datatype fs_code = ENOENT | EEXIST | ENOTDIR | EISDIR

text \<open>
  What a rejected child-process promise carries, as far as the \<open>catch\<close> blocks read it:
  \<open>code\<close>, \<open>stderr\<close> and \<open>message\<close>, each possibly undefined.
\<close>

record proc_error =
  err_code :: "jsstring option"
  err_stderr :: "jsstring option"
  err_message :: "jsstring option"

datatype js_error =
    TypeError
  | Error jsstring
  | FsError fs_code path
  | ProcError proc_error

definition bindE :: "js_error + 'a \<Rightarrow> ('a \<Rightarrow> js_error + 'b) \<Rightarrow> js_error + 'b" where
  "bindE m f = (case m of Inl e \<Rightarrow> Inl e | Inr x \<Rightarrow> f x)"

text \<open>
  The values \<open>JSON.parse\<close> produces, and \<open>undefined\<close>, which reading a missing property
  yields. Numbers are IEEE doubles in the program; here they are a type parameter, and
  the operations of the language on them are the fields of \<open>builtins\<close>, with
  \<open>JSON.parse\<close> itself (\<open>None\<close> for a SyntaxError). An object is the list of its own
  properties, each key once.
\<close>

datatype 'n jsval =
    JUndefined
  | JNull
  | JBool bool
  | JNum 'n
  | JStr jsstring
  | JArr "'n jsval list"
  | JObj "(jsstring \<times> 'n jsval) list"

record 'n builtins =
  JSON_parse :: "jsstring \<Rightarrow> 'n jsval option"
  num_zero :: 'n
  num_one :: 'n
  num_nan :: 'n
  num_add :: "'n \<Rightarrow> 'n \<Rightarrow> 'n"
  num_is_zero :: "'n \<Rightarrow> bool"
  num_is_nan :: "'n \<Rightarrow> bool"
  num_to_string :: "'n \<Rightarrow> jsstring"

definition nullish :: "'n jsval \<Rightarrow> bool" where
  "nullish v \<longleftrightarrow> v = JUndefined \<or> v = JNull"

text \<open>ToBoolean: \<open>undefined\<close>, \<open>null\<close>, \<open>false\<close>, zero, NaN and the empty string are falsy.\<close>

fun truthy :: "'n builtins \<Rightarrow> 'n jsval \<Rightarrow> bool" where
  "truthy B JUndefined = False"
| "truthy B JNull = False"
| "truthy B (JBool b) = b"
| "truthy B (JNum n) = (\<not> num_is_zero B n \<and> \<not> num_is_nan B n)"
| "truthy B (JStr s) = (s \<noteq> [])"
| "truthy B (JArr xs) = True"
| "truthy B (JObj kvs) = True"

definition own :: "(jsstring \<times> 'n jsval) list \<Rightarrow> jsstring \<Rightarrow> 'n jsval" where
  "own kvs k = (case map_of kvs k of Some v \<Rightarrow> v | None \<Rightarrow> JUndefined)"

text \<open>
  \<open>v.k\<close> for the property names the formatter reads (\<open>status\<close>, \<open>output\<close>, \<open>type\<close>,
  \<open>content\<close>, \<open>text\<close>, \<open>name\<close>, \<open>error\<close>, \<open>code\<close>, \<open>usage\<close> and the token counts): none of
  them is inherited from a prototype, so only an object's own property can be defined.
  Reading a property of \<open>undefined\<close> or \<open>null\<close> throws a TypeError.
\<close>

fun getProp :: "'n jsval \<Rightarrow> jsstring \<Rightarrow> js_error + 'n jsval" where
  "getProp JUndefined k = Inl TypeError"
| "getProp JNull k = Inl TypeError"
| "getProp (JObj kvs) k = Inr (own kvs k)"
| "getProp v k = Inr JUndefined"

text \<open>\<open>v[0]\<close>: the first element of an array, the first code unit of a string.\<close>

fun getIndex0 :: "'n jsval \<Rightarrow> js_error + 'n jsval" where
  "getIndex0 JUndefined = Inl TypeError"
| "getIndex0 JNull = Inl TypeError"
| "getIndex0 (JObj kvs) = Inr (own kvs (js ''0''))"
| "getIndex0 (JArr xs) = Inr (case xs of [] \<Rightarrow> JUndefined | x # _ \<Rightarrow> x)"
| "getIndex0 (JStr s) = Inr (case s of [] \<Rightarrow> JUndefined | c # _ \<Rightarrow> JStr [c])"
| "getIndex0 v = Inr JUndefined"

text \<open>\<open>v?.k\<close>\<close>

definition optProp :: "'n jsval \<Rightarrow> jsstring \<Rightarrow> js_error + 'n jsval" where
  "optProp v k = (if nullish v then Inr JUndefined else getProp v k)"

text \<open>
  ToString, as a template literal applies it. An array is joined with commas, \<open>undefined\<close>
  and \<open>null\<close> elements giving the empty string. A parsed object inherits
  \<open>Object.prototype.toString\<close> unless it has an own property \<open>toString\<close>; such a
  property is never callable, and then no conversion exists: a TypeError.
\<close>

fun toString :: "'n builtins \<Rightarrow> 'n jsval \<Rightarrow> js_error + jsstring"
  and toStrings :: "'n builtins \<Rightarrow> 'n jsval list \<Rightarrow> js_error + jsstring list" where
  "toString B JUndefined = Inr (js ''undefined'')"
| "toString B JNull = Inr (js ''null'')"
| "toString B (JBool b) = Inr (if b then js ''true'' else js ''false'')"
| "toString B (JNum n) = Inr (num_to_string B n)"
| "toString B (JStr s) = Inr s"
| "toString B (JArr xs) =
     (case toStrings B xs of Inl e \<Rightarrow> Inl e | Inr ss \<Rightarrow> Inr (join (js '','') ss))"
| "toString B (JObj kvs) =
     (if map_of kvs (js ''toString'') = None then Inr (js ''[object Object]'')
      else Inl TypeError)"
| "toStrings B [] = Inr []"
| "toStrings B (x # xs) =
     (case (if nullish x then Inr [] else toString B x) of
        Inl e \<Rightarrow> Inl e
      | Inr s \<Rightarrow> (case toStrings B xs of Inl e \<Rightarrow> Inl e | Inr ss \<Rightarrow> Inr (s # ss)))"

text \<open>
  ToPrimitive leaves a primitive alone and turns an array or object into the string
  above. \<open>a + b\<close> concatenates when either primitive is a string and adds numbers
  otherwise, after ToNumber: NaN for \<open>undefined\<close>, 0 for \<open>null\<close> and \<open>false\<close>, 1 for \<open>true\<close>.
\<close>

definition toPrimitive :: "'n builtins \<Rightarrow> 'n jsval \<Rightarrow> js_error + 'n jsval" where
  "toPrimitive B v =
     (case v of
        JArr xs \<Rightarrow> bindE (toString B v) (\<lambda>s. Inr (JStr s))
      | JObj kvs \<Rightarrow> bindE (toString B v) (\<lambda>s. Inr (JStr s))
      | _ \<Rightarrow> Inr v)"

definition isString :: "'n jsval \<Rightarrow> bool" where
  "isString v = (case v of JStr s \<Rightarrow> True | _ \<Rightarrow> False)"

definition toNumber :: "'n builtins \<Rightarrow> 'n jsval \<Rightarrow> 'n" where
  "toNumber B v =
     (case v of
        JNull \<Rightarrow> num_zero B
      | JBool b \<Rightarrow> (if b then num_one B else num_zero B)
      | JNum n \<Rightarrow> n
      | _ \<Rightarrow> num_nan B)"

definition js_add :: "'n builtins \<Rightarrow> 'n jsval \<Rightarrow> 'n jsval \<Rightarrow> js_error + 'n jsval" where
  "js_add B a b =
     bindE (toPrimitive B a) (\<lambda>pa.
     bindE (toPrimitive B b) (\<lambda>pb.
       if isString pa \<or> isString pb
       then bindE (toString B pa) (\<lambda>sa.
            bindE (toString B pb) (\<lambda>sb. Inr (JStr (sa @ sb))))
       else Inr (JNum (num_add B (toNumber B pa) (toNumber B pb)))))"

section \<open>Decoding the stream protocol\<close>

text \<open>The prefixes of the decoded lines, as UTF-16 code units.\<close>

definition THINKING :: jsstring where
  "THINKING = [0xD83E, 0xDDE0] @ js '' THINKING: ''"

definition COMMAND :: jsstring where
  "COMMAND = [0xD83D, 0xDD27] @ js '' COMMAND: ''"

definition COMMAND_RESULT :: jsstring where
  "COMMAND_RESULT = [0x2705] @ js '' COMMAND RESULT: ''"

definition COMMAND_FAILED :: jsstring where
  "COMMAND_FAILED = [0x274C] @ js '' COMMAND FAILED: Exit code ''"

definition MESSAGE :: jsstring where
  "MESSAGE = [0xD83D, 0xDCAC] @ js '' MESSAGE: ''"

definition TOKENS :: jsstring where
  "TOKENS = [0x23F1, 0xFE0F] @ js ''  Tokens: ''"

text \<open>\<open>json.output[0]\<close> and \<open>json.output[0]?.type\<close>\<close>

definition output0 :: "'n jsval \<Rightarrow> js_error + 'n jsval" where
  "output0 json = bindE (getProp json (js ''output'')) getIndex0"

definition output0_type :: "'n jsval \<Rightarrow> js_error + 'n jsval" where
  "output0_type json = bindE (output0 json) (\<lambda>item. optProp item (js ''type''))"

text \<open>
  \<open>json.output[0]?.content[0]?.text\<close>: a nullish item ends the whole chain with
  \<open>undefined\<close>; otherwise \<open>content[0]\<close> is read without a guard.
\<close>

definition output0_text :: "'n jsval \<Rightarrow> js_error + 'n jsval" where
  "output0_text json =
     bindE (output0 json) (\<lambda>item.
       if nullish item then Inr JUndefined
       else bindE (getProp item (js ''content'')) (\<lambda>content.
            bindE (getIndex0 content) (\<lambda>part. optProp part (js ''text''))))"

definition output0_name :: "'n jsval \<Rightarrow> js_error + 'n jsval" where
  "output0_name json = bindE (output0 json) (\<lambda>item. optProp item (js ''name''))"

definition isToolCall :: "'n jsval \<Rightarrow> js_error + bool" where
  "isToolCall json =
     bindE (output0_type json) (\<lambda>t. Inr (t = JStr (js ''mcp_call'') \<or>
       t = JStr (js ''mcp_approval_request'') \<or> t = JStr (js ''custom_tool_call'')))"

text \<open>
  The conditions of the four \<open>if\<close> statements. \<open>&&\<close> evaluates its right operand only
  when the left one holds, so \<open>json.output\<close> is read only then.
\<close>

definition isReasoning :: "'n jsval \<Rightarrow> js_error + bool" where
  "isReasoning json =
     bindE (getProp json (js ''status'')) (\<lambda>status.
       if status = JStr (js ''completed'')
       then bindE (output0_type json) (\<lambda>t. Inr (t = JStr (js ''reasoning'')))
       else Inr False)"

definition isCommandStart :: "'n jsval \<Rightarrow> js_error + bool" where
  "isCommandStart json =
     bindE (getProp json (js ''type'')) (\<lambda>t.
       if t = JStr (js ''in_progress'') \<or> t = JStr (js ''incomplete'') \<or>
          t = JStr (js ''calling'')
       then isToolCall json
       else Inr False)"

definition isCommandDone :: "'n jsval \<Rightarrow> js_error + bool" where
  "isCommandDone json =
     bindE (getProp json (js ''status'')) (\<lambda>status.
       if status = JStr (js ''completed'') then isToolCall json else Inr False)"

definition isMessage :: "'n jsval \<Rightarrow> js_error + bool" where
  "isMessage json =
     bindE (getProp json (js ''status'')) (\<lambda>status.
       if status = JStr (js ''completed'')
       then bindE (output0_type json) (\<lambda>t. Inr (t = JStr (js ''message'')))
       else Inr False)"

text \<open>
  The result line of a finished command. \<open>exitCode\<close> is \<open>json.error.code ?? 0\<close>, and
  \<open>exitCode === 0\<close> holds for the number zero only. \<open>name.substring\<close> is a function on
  strings alone: calling it on another truthy value is a TypeError.
\<close>

definition commandResult :: "'n builtins \<Rightarrow> 'n jsval \<Rightarrow> js_error + jsstring" where
  "commandResult B json =
     bindE (getProp json (js ''error'')) (\<lambda>err.
     bindE (getProp err (js ''code'')) (\<lambda>code.
       let exitCode = (if nullish code then JNum (num_zero B) else code)
       in if (case exitCode of JNum n \<Rightarrow> num_is_zero B n | _ \<Rightarrow> False)
          then bindE (output0_name json) (\<lambda>name.
                 bindE (if truthy B name
                        then (case name of
                                JStr s \<Rightarrow> Inr (substring s 0 100 @ js ''...'')
                              | _ \<Rightarrow> Inl TypeError)
                        else Inr [])
                   (\<lambda>preview. Inr (COMMAND_RESULT @ preview)))
          else bindE (toString B exitCode) (\<lambda>s. Inr (COMMAND_FAILED @ s))))"

text \<open>The token summary of a completed turn with a truthy \<open>usage\<close>.\<close>

definition usageLine :: "'n builtins \<Rightarrow> 'n jsval \<Rightarrow> js_error + jsstring" where
  "usageLine B usage =
     bindE (getProp usage (js ''input_tokens'')) (\<lambda>input_tokens.
     bindE (getProp usage (js ''cached_input_tokens'')) (\<lambda>cached_input_tokens.
     bindE (getProp usage (js ''output_tokens'')) (\<lambda>output_tokens.
     bindE (js_add B input_tokens
              (if truthy B cached_input_tokens then cached_input_tokens
               else JNum (num_zero B))) (\<lambda>totalIn.
     bindE (toString B totalIn) (\<lambda>sIn.
     bindE (toString B output_tokens) (\<lambda>sOut.
     bindE (if truthy B cached_input_tokens
            then bindE (toString B cached_input_tokens)
                   (\<lambda>c. Inr (js '' ('' @ c @ js '' cached)''))
            else Inr []) (\<lambda>cached.
       Inr (TOKENS @ sIn @ js ''in/'' @ sOut @ js ''out'' @ cached))))))))"

text \<open>The body of the \<open>try\<close> block, after \<open>JSON.parse\<close>; \<open>None\<close> is \<open>null\<close>.\<close>

definition formatParsed :: "'n builtins \<Rightarrow> 'n jsval \<Rightarrow> js_error + jsstring option" where
  "formatParsed B json =
     bindE (isReasoning json) (\<lambda>reasoning.
       if reasoning
       then bindE (output0_text json) (\<lambda>t.
            bindE (toString B t) (\<lambda>s. Inr (Some (THINKING @ s))))
       else
     bindE (isCommandStart json) (\<lambda>starting.
       if starting
       then bindE (output0_name json) (\<lambda>n.
            bindE (toString B n) (\<lambda>s. Inr (Some (COMMAND @ s))))
       else
     bindE (isCommandDone json) (\<lambda>finished.
       if finished
       then bindE (commandResult B json) (\<lambda>s. Inr (Some s))
       else
     bindE (isMessage json) (\<lambda>message.
       if message
       then bindE (output0_text json) (\<lambda>t.
            bindE (toString B t) (\<lambda>s. Inr (Some (MESSAGE @ s))))
       else
     bindE (getProp json (js ''status'')) (\<lambda>status.
       if status = JStr (js ''started'') \<or> status = JStr (js ''completed'')
       then
         (if status = JStr (js ''completed'')
          then bindE (getProp json (js ''usage'')) (\<lambda>usage.
                 if truthy B usage
                 then bindE (usageLine B usage) (\<lambda>s. Inr (Some s))
                 else Inr None)
          else Inr None)
       else Inr None)))))"

text \<open>\<open>formatLocalStreamJsonLine\<close>: every exception of the \<open>try\<close> block yields \<open>null\<close>.\<close>

definition formatLocalStreamJsonLine :: "'n builtins \<Rightarrow> jsstring \<Rightarrow> jsstring option" where
  "formatLocalStreamJsonLine B line =
     (case JSON_parse B line of
        None \<Rightarrow> None
      | Some json \<Rightarrow> (case formatParsed B json of Inl e \<Rightarrow> None | Inr r \<Rightarrow> r))"


section \<open>Engine metadata\<close>

datatype effort = low | medium | high

record EngineMetadata =
  engineId :: jsstring
  engineName :: jsstring
  description :: jsstring
  cliCommand :: jsstring
  cliBinary :: jsstring
  installCommand :: jsstring
  defaultModel :: jsstring
  defaultModelReasoningEffort :: "effort option"
  engineOrder :: nat

record LocalEngineMetadata = EngineMetadata +
  localApiUri :: jsstring
  localApiPath :: jsstring
  localApiKey :: "jsstring option"
  stream :: bool

text \<open>The metadata of the local engine (fields \<open>id\<close>, \<open>name\<close> and \<open>order\<close> renamed).\<close>

definition metadata :: LocalEngineMetadata where
  "metadata = \<lparr>
     engineId = js ''local'',
     engineName = js ''Local'',
     description = js ''Local AI models via local server (OpenAI compatible)'',
     cliCommand = js ''curl'',
     cliBinary = js ''lms'',
     installCommand = js ''Install LM Studio from https://lmstudio.ai/'',
     defaultModel = js ''qwen3-coder-30b-a3b-instruct'',
     defaultModelReasoningEffort = None,
     engineOrder = 100,
     localApiUri = js ''http://localhost:1234'',
     localApiPath = js ''/v1/responses'',
     localApiKey = Some (js ''lm-studio''),
     stream = False \<rparr>"

text \<open>\<open>DEFAULT_TIMEOUT\<close> of the local engine's configuration, in milliseconds.\<close>

definition DEFAULT_TIMEOUT :: nat where
  "DEFAULT_TIMEOUT = 1800000"

section \<open>The local runner\<close>

text \<open>Decimal notation of an integer, as a template literal prints an exit code.\<close>

function show_nat :: "nat \<Rightarrow> jsstring" where
  "show_nat n = (if n < 10 then [48 + n] else show_nat (n div 10) @ [48 + n mod 10])"
  by pat_completeness auto
termination
  by (relation "measure (\<lambda>n. n)") auto

declare show_nat.simps [simp del]

definition show_int :: "int \<Rightarrow> jsstring" where
  "show_int i = (if i < 0 then 45 # show_nat (nat (- i)) else show_nat (nat i))"

text \<open>
  \<open>/needle/i.test(s)\<close> for a literal ASCII needle. Without the flag \<open>u\<close> a code unit is
  compared by its upper-case form, and a unit beyond ASCII never folds into ASCII.
\<close>

definition upperAscii :: "jschar \<Rightarrow> jschar" where
  "upperAscii c = (if 97 \<le> c \<and> c \<le> 122 then c - 32 else c)"

fun test_ci :: "jsstring \<Rightarrow> jsstring \<Rightarrow> bool" where
  "test_ci needle [] = (needle = [])"
| "test_ci needle (c # s) =
     (map upperAscii (take (length needle) (c # s)) = map upperAscii needle \<or>
      test_ci needle s)"

record RunLocalOptions =
  prompt :: jsstring
  workingDir :: jsstring
  model :: "jsstring option"
  modelReasoningEffort :: "effort option"
  env :: "(jsstring \<rightharpoonup> jsstring) option"
  onData :: bool
  onErrorData :: bool
  abortSignal :: "unit option"
  timeout :: "nat option"

record RunLocalResult =
  stdout :: jsstring
  stderr :: jsstring

record SpawnResult = RunLocalResult +
  exitCode :: int

text \<open>
  What the runner keeps while a child runs: the telemetry capture, the calls it makes to
  the caller's \<open>onData\<close> and \<open>onErrorData\<close>, and the entries it hands to \<open>logger.error\<close>
  (debug logging is left out).
\<close>

record failure_log =
  log_exitCode :: int
  log_error :: jsstring
  log_command :: jsstring

datatype log_entry = NotFoundLog jsstring | FailureLog failure_log

record 't run_state =
  telemetry :: 't
  onData_calls :: "jsstring list"
  onErrorData_calls :: "jsstring list"
  logged :: "log_entry list"

text \<open>
  The environment, process and telemetry collaborators of the runner are not part of the
  sources at hand and are parameters: \<open>process.env\<close>, \<open>os.homedir()\<close> and \<open>process.cwd()\<close>;
  \<open>expandHomeDir\<close> of the shared utilities, applied to the path an environment string
  denotes (\<open>parse_path\<close>, which reads the empty string as the path of one empty
  component; \<open>show_path\<close> writes a path as a string again and \<open>relative\<close> is
  \<open>path.relative\<close>); the telemetry capture, whose methods may throw like any call;
  \<open>JSON.stringify\<close> on the request body.
\<close>

record process =
  process_env :: "jsstring \<rightharpoonup> jsstring"
  homedir :: path
  process_cwd :: path

record paths =
  parse_path :: "jsstring \<Rightarrow> path"
  show_path :: "path \<Rightarrow> jsstring"
  relative :: "path \<Rightarrow> path \<Rightarrow> jsstring"
  expandHomeDir :: "path \<Rightarrow> path"

record 't telemetry_capture =
  createTelemetryCapture :: "jsstring \<Rightarrow> jsstring option \<Rightarrow> jsstring \<Rightarrow> jsstring \<Rightarrow> 't"
  captureFromStreamJson :: "jsstring \<Rightarrow> 't \<Rightarrow> js_error + 't"
  logCapturedTelemetry :: "int \<Rightarrow> 't \<Rightarrow> js_error + 't"

text \<open>
  Modelled from the spec: the telemetry capture of \<open>shared/telemetry\<close>, whose code is not
  among the sources; the runner only calls it. The spec has the run record telemetry
  (token counts, timing) keyed by provider and model, has the telemetry collaborator
  only observe the stream, never feeding back into the control flow of the step, and
  has a single unparsable protocol line dropped silently, the stream continuing. So
  each method changes what the capture holds and returns; \<open>create\<close>, \<open>capture\<close> and \<open>log\<close>
  say what it holds.
\<close>

definition observingCapture ::
  "(jsstring \<Rightarrow> jsstring option \<Rightarrow> jsstring \<Rightarrow> jsstring \<Rightarrow> 't) \<Rightarrow> (jsstring \<Rightarrow> 't \<Rightarrow> 't) \<Rightarrow>
   (int \<Rightarrow> 't \<Rightarrow> 't) \<Rightarrow> 't telemetry_capture" where
  "observingCapture create capture log =
     \<lparr> createTelemetryCapture = create,
       captureFromStreamJson = (\<lambda>data t. Inr (capture data t)),
       logCapturedTelemetry = (\<lambda>code t. Inr (log code t)) \<rparr>"

record request_body =
  body_model :: "jsstring option"
  body_input :: jsstring
  body_stream :: bool
  body_reasoning :: "effort option"

text \<open>An environment variable is truthy when it is defined and not empty.\<close>

definition env_truthy :: "process \<Rightarrow> jsstring \<Rightarrow> bool" where
  "env_truthy P k = (case process_env P k of None \<Rightarrow> False | Some v \<Rightarrow> v \<noteq> [])"

text \<open>\<open>(process.env.CODEMACHINE_PLAIN_LOGS || '').toString() === '1'\<close>\<close>

definition plainLogs :: "process \<Rightarrow> bool" where
  "plainLogs P \<longleftrightarrow> process_env P (js ''CODEMACHINE_PLAIN_LOGS'') = Some (js ''1'')"

text \<open>The \<open>LOCAL_HOME\<close> the runner hands to the child.\<close>

definition runnerLocalHome :: "paths \<Rightarrow> process \<Rightarrow> path" where
  "runnerLocalHome X P =
     (case process_env P (js ''LOCAL_HOME'') of
        None \<Rightarrow> homedir P @ [js ''.codemachine'', js ''local'']
      | Some v \<Rightarrow>
          if v \<noteq> [] then expandHomeDir X (parse_path X v)
          else homedir P @ [js ''.codemachine'', js ''local''])"

datatype stdio = inherit | pipe

record 's SpawnOptions =
  command :: jsstring
  args :: "jsstring list"
  cwd :: jsstring
  spawn_env :: "jsstring \<rightharpoonup> jsstring"
  stdinInput :: jsstring
  onStdout :: "(jsstring \<Rightarrow> 's \<Rightarrow> js_error + 's) option"
  onStderr :: "(jsstring \<Rightarrow> 's \<Rightarrow> js_error + 's) option"
  signal :: "unit option"
  stdioMode :: stdio
  spawn_timeout :: nat

text \<open>\<open>buildLocalExecCommand\<close>, which reads three of its options only.\<close>

definition buildLocalExecCommand ::
  "jsstring \<Rightarrow> jsstring \<Rightarrow> jsstring option \<Rightarrow> jsstring \<times> jsstring list" where
  "buildLocalExecCommand uri apiPath apiKey =
     (cliCommand metadata,
      [js ''-ss'', js ''-X'', js ''POST'', js ''-L'', uri @ apiPath,
       js ''-H'', js ''Content-Type: application/json'',
       js ''-H'', js ''Authorization: Bearer '' @
                  (case apiKey of None \<Rightarrow> js ''undefined'' | Some k \<Rightarrow> k),
       js ''--data-binary'', js ''@-''])"

text \<open>
  The text the stdout handler decodes: the normalized chunk, without a leading
  \<open>data: \<close> when the engine streams.
\<close>

definition stdoutData :: "bool \<Rightarrow> bool \<Rightarrow> jsstring \<Rightarrow> jsstring" where
  "stdoutData plain streaming chunk =
     (let out = normalize plain chunk
      in if streaming \<and> startsWith (trim out) (js ''data: '') then drop 6 (trim out)
         else out)"

text \<open>
  The handlers given to \<open>spawnProcess\<close> as \<open>onStdout\<close> and \<open>onStderr\<close>. \<open>hasOnData\<close> tells
  whether the caller supplied \<open>onData\<close>; a call of it is recorded with its argument.
\<close>

definition handleStdout ::
  "'n builtins \<Rightarrow> 't telemetry_capture \<Rightarrow> bool \<Rightarrow> bool \<Rightarrow> bool \<Rightarrow>
   jsstring \<Rightarrow> 't run_state \<Rightarrow> js_error + 't run_state" where
  "handleStdout B T plain streaming hasOnData chunk st =
     (let data = stdoutData plain streaming chunk
      in bindE (captureFromStreamJson T data (telemetry st)) (\<lambda>t.
           let st1 = st\<lparr>telemetry := t\<rparr>
           in case formatLocalStreamJsonLine B data of
                None \<Rightarrow> Inr st1
              | Some formatted \<Rightarrow>
                  if formatted \<noteq> [] \<and> hasOnData
                  then Inr (st1\<lparr>onData_calls := onData_calls st1 @ [formatted @ [LF]]\<rparr>)
                  else Inr st1))"

definition handleStderr ::
  "bool \<Rightarrow> bool \<Rightarrow> jsstring \<Rightarrow> 't run_state \<Rightarrow> js_error + 't run_state" where
  "handleStderr plain hasOnErrorData chunk st =
     (let out = normalize plain chunk
      in if hasOnErrorData
         then Inr (st\<lparr>onErrorData_calls := onErrorData_calls st @ [out]\<rparr>)
         else Inr st)"

text \<open>The options \<open>runLocal\<close> passes to \<open>spawnProcess\<close>; \<open>inheritTTY\<close> is \<open>false\<close>.\<close>

definition spawnOptions ::
  "'n builtins \<Rightarrow> 't telemetry_capture \<Rightarrow> (request_body \<Rightarrow> jsstring) \<Rightarrow> paths \<Rightarrow>
   process \<Rightarrow> RunLocalOptions \<Rightarrow> 't run_state SpawnOptions" where
  "spawnOptions B T stringify X P options =
     (let timeout' = (case timeout options of None \<Rightarrow> 1800000 | Some t \<Rightarrow> t);
          mergedEnv =
            (process_env P ++ (case env options of None \<Rightarrow> Map.empty | Some e \<Rightarrow> e))
              (js ''LOCAL_HOME'' \<mapsto> show_path X (runnerLocalHome X P));
          inheritTTY = False;
          built = buildLocalExecCommand (localApiUri metadata) (localApiPath metadata)
                    (localApiKey metadata);
          body = \<lparr> body_model = model options, body_input = prompt options,
                   body_stream = stream metadata,
                   body_reasoning = modelReasoningEffort options \<rparr>
      in \<lparr> command = fst built,
           args = snd built,
           cwd = workingDir options,
           spawn_env = mergedEnv,
           stdinInput = stringify body,
           onStdout = (if inheritTTY then None
                       else Some (handleStdout B T (plainLogs P) (stream metadata)
                                    (onData options))),
           onStderr = (if inheritTTY then None
                       else Some (handleStderr (plainLogs P) (onErrorData options))),
           signal = abortSignal options,
           stdioMode = (if inheritTTY then inherit else pipe),
           spawn_timeout = timeout' \<rparr>)"

text \<open>
  The test of the \<open>catch\<close> block for a missing binary. The block reads what was thrown
  as a record with optional \<open>code\<close> and \<open>message\<close>.
\<close>

definition notFound :: "proc_error \<Rightarrow> bool" where
  "notFound err =
     (let message = (case err_message err of None \<Rightarrow> [] | Some m \<Rightarrow> m)
      in err_code err = Some (js ''ENOENT'') \<or>
         test_ci (js ''not recognized as an internal or external command'') message \<or>
         test_ci (js ''command not found'') message)"

text \<open>The message of the error thrown for a missing binary.\<close>

definition notAvailableMessage :: "jsstring \<Rightarrow> jsstring" where
  "notAvailableMessage cmd =
     [39] @ cmd @ [39] @ js '' is not available on this system. Please install '' @
     engineName metadata @ js '' first:'' @ [LF] @ js ''  '' @ installCommand metadata"

text \<open>The lines \<open>runLocal\<close> logs when the child exits with a code other than 0.\<close>

definition failureLines :: "SpawnResult \<Rightarrow> jsstring list" where
  "failureLines result =
     (let errorOutput =
            (if trim (stderr result) \<noteq> [] then trim (stderr result)
             else if trim (stdout result) \<noteq> [] then trim (stdout result)
             else js ''no error output'')
      in take 10 (split_on LF errorOutput))"

text \<open>The state the handlers start from, with the capture \<open>runLocal\<close> creates.\<close>

definition initialState :: "'t telemetry_capture \<Rightarrow> RunLocalOptions \<Rightarrow> 't run_state" where
  "initialState T options =
     \<lparr> telemetry = createTelemetryCapture T (js ''local'') (model options)
                     (prompt options) (workingDir options),
       onData_calls = [], onErrorData_calls = [], logged = [] \<rparr>"

text \<open>
  \<open>runLocal\<close>. \<open>spawnProcess\<close> is the process runner, a parameter: it receives the options
  and the state the handlers act on, and either resolves with a result or rejects with
  an error, which is thrown on unless it tells of a missing binary.
\<close>

definition runLocal ::
  "'n builtins \<Rightarrow> 't telemetry_capture \<Rightarrow> (request_body \<Rightarrow> jsstring) \<Rightarrow> paths \<Rightarrow>
   ('t run_state SpawnOptions \<Rightarrow> 't run_state \<Rightarrow> (proc_error + SpawnResult) \<times> 't run_state) \<Rightarrow>
   process \<Rightarrow> RunLocalOptions \<Rightarrow> (js_error + RunLocalResult) \<times> 't run_state" where
  "runLocal B T stringify X spawnProcess P options =
     (let st0 = initialState T options
      in if prompt options = [] then (Inl (Error (js ''runLocal requires a prompt.'')), st0)
         else if workingDir options = []
         then (Inl (Error (js ''runLocal requires a working directory.'')), st0)
         else
           (let opts = spawnOptions B T stringify X P options;
                commandLine = command opts @ js '' '' @ join (js '' '') (args opts)
            in case spawnProcess opts st0 of
                 (Inl error, st) \<Rightarrow>
                   if notFound error
                   then (Inl (Error (notAvailableMessage (command opts))),
                         st\<lparr>logged := logged st @
                              [NotFoundLog (engineName metadata @
                                 js '' CLI not found when executing: '' @ trim commandLine)]\<rparr>)
                   else (Inl (ProcError error), st)
               | (Inr result, st) \<Rightarrow>
                   if exitCode result \<noteq> 0
                   then (Inl (Error (js ''Local CLI exited with code '' @
                                      show_int (exitCode result))),
                         st\<lparr>logged := logged st @
                              [FailureLog \<lparr> log_exitCode = exitCode result,
                                 log_error = join [LF] (failureLines result),
                                 log_command = commandLine \<rparr>]\<rparr>)
                   else (case logCapturedTelemetry T (exitCode result) (telemetry st) of
                           Inl e \<Rightarrow> (Inl e, st)
                         | Inr t \<Rightarrow>
                             (Inr \<lparr> stdout = stdout result, stderr = stderr result \<rparr>,
                              st\<lparr>telemetry := t\<rparr>))))"

section \<open>File system, console and child processes\<close>

text \<open>
  The file system is a map from paths to nodes. The operations below fail the way the
  functions of \<open>node:fs/promises\<close> do when the shape of the tree forbids them (a missing
  parent, a file in the way, a directory where a file is expected); permissions and
  device errors are outside the model. Every call, every line written to the console and
  every child process is appended to \<open>trace\<close>.
\<close>

datatype node = File jsstring | Dir

type_synonym tree = "path \<rightharpoonup> node"

datatype event =
    Stat path
  | Mkdir path
  | WriteFile path jsstring
  | Rm path
  | RmRecursive path
  | ExistsSync path
  | Exec jsstring "jsstring list"
  | ConsoleError jsstring
  | ConsoleLog jsstring
  | HasTemplateChanged path jsstring
  | SetActiveTemplate path jsstring
  | BootstrapWorkspace path path

record world =
  nodes :: tree
  trace :: "event list"

text \<open>An asynchronous function: it runs in a world and resolves or rejects.\<close>

type_synonym 'a io = "world \<Rightarrow> (js_error + 'a) \<times> world"

definition returnIO :: "'a \<Rightarrow> 'a io" where
  "returnIO x w = (Inr x, w)"

definition throwIO :: "js_error \<Rightarrow> 'a io" where
  "throwIO e w = (Inl e, w)"

definition bindIO :: "'a io \<Rightarrow> ('a \<Rightarrow> 'b io) \<Rightarrow> 'b io" where
  "bindIO m f w = (case m w of (Inl e, w') \<Rightarrow> (Inl e, w') | (Inr x, w') \<Rightarrow> f x w')"

definition catchIO :: "'a io \<Rightarrow> (js_error \<Rightarrow> 'a io) \<Rightarrow> 'a io" where
  "catchIO m h w = (case m w of (Inl e, w') \<Rightarrow> h e w' | (Inr x, w') \<Rightarrow> (Inr x, w'))"

definition emit :: "event \<Rightarrow> world \<Rightarrow> world" where
  "emit ev w = w\<lparr>trace := trace w @ [ev]\<rparr>"

definition consoleError :: "jsstring \<Rightarrow> unit io" where
  "consoleError s w = (Inr (), emit (ConsoleError s) w)"

definition consoleLog :: "jsstring \<Rightarrow> unit io" where
  "consoleLog s w = (Inr (), emit (ConsoleLog s) w)"

text \<open>\<open>stat(p)\<close> resolves when something exists at \<open>p\<close>.\<close>

definition stat :: "path \<Rightarrow> unit io" where
  "stat p w =
     (if nodes w p = None then Inl (FsError ENOENT p) else Inr (), emit (Stat p) w)"

definition existsSync :: "path \<Rightarrow> bool io" where
  "existsSync p w = (Inr (nodes w p \<noteq> None), emit (ExistsSync p) w)"

text \<open>
  \<open>mkdir(p, { recursive: true })\<close> walks down from the root and creates what is missing.
  It stops at a file in the way; the directories created before stay. A component is
  never empty: the empty string, which names no file, is the path of one empty
  component, and \<open>mkdir\<close> rejects it with \<open>ENOENT\<close>.
\<close>

fun mkdirs :: "path \<Rightarrow> jsstring list \<Rightarrow> tree \<Rightarrow> fs_code option \<times> tree" where
  "mkdirs pre [] t = (None, t)"
| "mkdirs pre (c # cs) t =
     (if c = [] then (Some ENOENT, t)
      else case t (pre @ [c]) of
             Some Dir \<Rightarrow> mkdirs (pre @ [c]) cs t
           | Some (File d) \<Rightarrow> (Some (if cs = [] then EEXIST else ENOTDIR), t)
           | None \<Rightarrow> mkdirs (pre @ [c]) cs (t(pre @ [c] \<mapsto> Dir)))"

definition mkdir_recursive :: "path \<Rightarrow> unit io" where
  "mkdir_recursive p w =
     (case mkdirs [] p (nodes w) of
        (None, t) \<Rightarrow> (Inr (), emit (Mkdir p) (w\<lparr>nodes := t\<rparr>))
      | (Some c, t) \<Rightarrow> (Inl (FsError c p), emit (Mkdir p) (w\<lparr>nodes := t\<rparr>)))"

text \<open>\<open>writeFile(p, data)\<close> needs the parent directory and replaces a file at \<open>p\<close>.\<close>

definition writeFile :: "path \<Rightarrow> jsstring \<Rightarrow> unit io" where
  "writeFile p data w =
     (if p = [] then (Inl (FsError EISDIR p), emit (WriteFile p data) w)
      else case nodes w (butlast p) of
             None \<Rightarrow> (Inl (FsError ENOENT p), emit (WriteFile p data) w)
           | Some (File d) \<Rightarrow> (Inl (FsError ENOTDIR p), emit (WriteFile p data) w)
           | Some Dir \<Rightarrow>
               (case nodes w p of
                  Some Dir \<Rightarrow> (Inl (FsError EISDIR p), emit (WriteFile p data) w)
                | _ \<Rightarrow> (Inr (), emit (WriteFile p data) (w\<lparr>nodes := (nodes w)(p \<mapsto> File data)\<rparr>))))"

text \<open>
  \<open>rm(p, { force: true })\<close>: a missing path is no error, a file is removed, a directory is
  refused. With \<open>recursive: true\<close> the path goes with everything below it.
\<close>

definition rm_force :: "path \<Rightarrow> unit io" where
  "rm_force p w =
     (case nodes w p of
        None \<Rightarrow> (Inr (), emit (Rm p) w)
      | Some (File d) \<Rightarrow> (Inr (), emit (Rm p) (w\<lparr>nodes := (nodes w)(p := None)\<rparr>))
      | Some Dir \<Rightarrow> (Inl (FsError EISDIR p), emit (Rm p) w))"

definition below :: "path \<Rightarrow> path \<Rightarrow> bool" where
  "below d p \<longleftrightarrow> take (length d) p = d"

definition rm_recursive :: "path \<Rightarrow> unit io" where
  "rm_recursive p w =
     (Inr (), emit (RmRecursive p) (w\<lparr>nodes := (\<lambda>q. if below p q then None else nodes w q)\<rparr>))"

text \<open>
  \<open>execa\<close> is a parameter: given the command, its arguments and options it may change the
  file system, and it resolves with a result or rejects with an error. \<open>attempt\<close> is an
  \<open>await execa(...)\<close> inside a \<open>try\<close>: the outcome is handed to the code after it.
\<close>

record exec_result =
  x_exitCode :: "int option"
  x_stdout :: "jsstring option"
  x_stderr :: "jsstring option"

record exec_options =
  x_timeout :: "nat option"
  x_reject :: bool
  x_env :: "(jsstring \<times> jsstring) option"
  x_stdio :: "stdio option"

type_synonym execa =
  "jsstring \<Rightarrow> jsstring list \<Rightarrow> exec_options \<Rightarrow> tree \<Rightarrow> (proc_error + exec_result) \<times> tree"

definition attempt ::
  "execa \<Rightarrow> jsstring \<Rightarrow> jsstring list \<Rightarrow> exec_options \<Rightarrow> (proc_error + exec_result) io" where
  "attempt execa c a opts w =
     (case execa c a opts (nodes w) of
        (r, t) \<Rightarrow> (Inr r, emit (Exec c a) (w\<lparr>nodes := t\<rparr>)))"

section \<open>Authentication of the local engine\<close>

definition RULE :: jsstring where
  "RULE = replicate 60 0x2500"

definition WARNING :: jsstring where
  "WARNING = js ''  '' @ [0x26A0, 0xFE0F] @ js ''  ''"

text \<open>
  \<open>resolveLocalHome\<close>: the argument, else \<open>LOCAL_HOME\<close> (\<open>??\<close> lets an empty string
  pass), else the default below the user's home; the directory is created when it is
  missing.
\<close>

definition localHomePath :: "paths \<Rightarrow> process \<Rightarrow> path option \<Rightarrow> path" where
  "localHomePath X P localHome =
     (let rawPath =
            (case localHome of
               Some p \<Rightarrow> p
             | None \<Rightarrow>
                 (case process_env P (js ''LOCAL_HOME'') of
                    Some v \<Rightarrow> parse_path X v
                  | None \<Rightarrow> homedir P @ [js ''.codemachine'', js ''local'']))
      in expandHomeDir X rawPath)"

definition resolveLocalHome :: "paths \<Rightarrow> process \<Rightarrow> path option \<Rightarrow> path io" where
  "resolveLocalHome X P localHome =
     (let targetHome = localHomePath X P localHome
      in bindIO (mkdir_recursive targetHome) (\<lambda>u. returnIO targetHome))"

text \<open>
  The options of the version probe, and of the login command, which runs with the
  process environment plus the engine's home variable and inherits the terminal.
\<close>

definition loginOptions :: "jsstring \<Rightarrow> jsstring \<Rightarrow> exec_options" where
  "loginOptions var dir =
     \<lparr> x_timeout = None, x_reject = True, x_env = Some (var, dir), x_stdio = Some inherit \<rparr>"

text \<open>\<open>isCliInstalled\<close> of the local engine: only exit code 0 counts.\<close>

definition versionProbe :: exec_options where
  "versionProbe = \<lparr> x_timeout = Some 3000, x_reject = False, x_env = None, x_stdio = None \<rparr>"

definition isCliInstalled :: "execa \<Rightarrow> jsstring \<Rightarrow> bool io" where
  "isCliInstalled execa cmd =
     bindIO (attempt execa cmd [js ''version''] versionProbe)
       (\<lambda>outcome.
          case outcome of
            Inl e \<Rightarrow> returnIO False
          | Inr result \<Rightarrow>
              if x_exitCode result = Some 0 then returnIO True
              else
                (let out = (case x_stdout result of None \<Rightarrow> [] | Some s \<Rightarrow> s) @ [LF] @
                           (case x_stderr result of None \<Rightarrow> [] | Some s \<Rightarrow> s)
                 in if test_ci (js ''not recognized as an internal or external command'') out
                    then returnIO False
                    else if test_ci (js ''command not found'') out then returnIO False
                    else if test_ci (js ''No such file or directory'') out then returnIO False
                    else returnIO False))"

definition getAuthFilePath :: "path \<Rightarrow> path" where
  "getAuthFilePath localHome = localHome @ [js ''auth.json'']"

definition isAuthenticated :: "paths \<Rightarrow> process \<Rightarrow> bool io" where
  "isAuthenticated X P =
     bindIO (resolveLocalHome X P None) (\<lambda>localHome.
       let authPath = getAuthFilePath localHome
       in catchIO (bindIO (stat authPath) (\<lambda>u. returnIO True)) (\<lambda>e. returnIO False))"

text \<open>The seven lines both engines print when the binary is missing, and the error.\<close>

definition notInstalledBanner :: "jsstring \<Rightarrow> jsstring \<Rightarrow> jsstring \<Rightarrow> unit io" where
  "notInstalledBanner name binary install =
     bindIO (consoleError ([LF] @ RULE)) (\<lambda>u.
     bindIO (consoleError (WARNING @ name @ js '' CLI Not Installed'')) (\<lambda>u.
     bindIO (consoleError RULE) (\<lambda>u.
     bindIO (consoleError ([LF] @ js ''The '' @ [39] @ binary @ [39] @
                           js '' command is not available.'')) (\<lambda>u.
     bindIO (consoleError (js ''Please install '' @ name @ js '' CLI first:'' @ [LF])) (\<lambda>u.
     bindIO (consoleError (js ''  '' @ install @ [LF])) (\<lambda>u.
     consoleError (RULE @ [LF])))))))"

definition notFoundBanner :: "jsstring \<Rightarrow> jsstring \<Rightarrow> jsstring \<Rightarrow> jsstring \<Rightarrow> unit io" where
  "notFoundBanner name binary subcommand install =
     bindIO (consoleError ([LF] @ RULE)) (\<lambda>u.
     bindIO (consoleError (WARNING @ name @ js '' CLI Not Found'')) (\<lambda>u.
     bindIO (consoleError RULE) (\<lambda>u.
     bindIO (consoleError ([LF] @ [39] @ binary @ js '' '' @ subcommand @ [39] @
                           js '' failed because the CLI is missing.'')) (\<lambda>u.
     bindIO (consoleError (js ''Please install '' @ name @
                           js '' CLI before trying again:'' @ [LF])) (\<lambda>u.
     bindIO (consoleError (js ''  '' @ install @ [LF])) (\<lambda>u.
     consoleError (RULE @ [LF])))))))"

definition notInstalledError :: "jsstring \<Rightarrow> js_error" where
  "notInstalledError name = Error (name @ js '' CLI is not installed.'')"

text \<open>The test the \<open>catch\<close> blocks of \<open>ensureAuth\<close> apply to a failed login command.\<close>

definition loginNotFound :: "proc_error \<Rightarrow> bool" where
  "loginNotFound err =
     (let stderr' = (case err_stderr err of None \<Rightarrow> [] | Some s \<Rightarrow> s);
          message = (case err_message err of None \<Rightarrow> [] | Some m \<Rightarrow> m);
          shown = (if stderr' \<noteq> [] then stderr' else message)
      in err_code err = Some (js ''ENOENT'') \<or>
         test_ci (js ''not recognized as an internal or external command'') shown \<or>
         test_ci (js ''command not found'') shown \<or>
         test_ci (js ''No such file or directory'') shown)"

definition ensureAuth :: "execa \<Rightarrow> paths \<Rightarrow> process \<Rightarrow> bool io" where
  "ensureAuth execa X P =
     bindIO (resolveLocalHome X P None) (\<lambda>localHome.
       let authPath = getAuthFilePath localHome
       in bindIO (catchIO (bindIO (stat authPath) (\<lambda>u. returnIO True))
                    (\<lambda>e. returnIO False)) (\<lambda>found.
          if found then returnIO True
          else if process_env P (js ''CODEMACHINE_SKIP_AUTH'') = Some (js ''1'')
          then bindIO (writeFile authPath (js ''{}'')) (\<lambda>u. returnIO True)
          else
            bindIO (isCliInstalled execa (cliBinary metadata)) (\<lambda>cliInstalled.
              if \<not> cliInstalled
              then bindIO (notInstalledBanner (engineName metadata) (cliBinary metadata)
                             (installCommand metadata))
                     (\<lambda>u. throwIO (notInstalledError (engineName metadata)))
              else
                bindIO (bindIO (attempt execa (cliBinary metadata) [js ''status'']
                                  (loginOptions (js ''LOCAL_HOME'') (show_path X localHome)))
                          (\<lambda>outcome.
                             case outcome of
                               Inr r \<Rightarrow> returnIO ()
                             | Inl error \<Rightarrow>
                                 if loginNotFound error
                                 then bindIO (notFoundBanner (engineName metadata)
                                                (cliBinary metadata) (js ''login'')
                                                (installCommand metadata))
                                        (\<lambda>u. throwIO (notInstalledError (engineName metadata)))
                                 else throwIO (ProcError error))) (\<lambda>u.
                bindIO (catchIO (stat authPath) (\<lambda>e. writeFile authPath (js ''{}''))) (\<lambda>u.
                returnIO True)))))"

definition clearAuth :: "paths \<Rightarrow> process \<Rightarrow> unit io" where
  "clearAuth X P =
     bindIO (resolveLocalHome X P None) (\<lambda>localHome.
       let authPath = getAuthFilePath localHome
       in catchIO (rm_force authPath) (\<lambda>e. returnIO ()))"

section \<open>Authentication of the Claude engine\<close>

text \<open>
  The functions of \<open>providers/claude/auth.ts\<close> carry the suffix \<open>_claude\<close>. The metadata
  module of that engine is not among the sources and is a parameter.
\<close>

record ClaudeAuthOptions =
  profile :: "jsstring option"
  claudeConfigDir :: "jsstring option"

text \<open>\<open>isCliInstalled\<close> of the Claude engine: whatever the command does, short of a throw.\<close>

definition isCliInstalled_claude :: "execa \<Rightarrow> jsstring \<Rightarrow> bool io" where
  "isCliInstalled_claude execa cmd =
     bindIO (attempt execa cmd [js ''--version''] versionProbe)
       (\<lambda>outcome. case outcome of Inl e \<Rightarrow> returnIO False | Inr r \<Rightarrow> returnIO True)"

definition resolveClaudeConfigDir :: "paths \<Rightarrow> process \<Rightarrow> ClaudeAuthOptions option \<Rightarrow> path" where
  "resolveClaudeConfigDir X P options =
     (let given = (case options of None \<Rightarrow> None | Some opt \<Rightarrow> claudeConfigDir opt)
      in if (case given of None \<Rightarrow> False | Some d \<Rightarrow> d \<noteq> [])
         then expandHomeDir X (parse_path X (the given))
         else if env_truthy P (js ''CLAUDE_CONFIG_DIR'')
         then expandHomeDir X (parse_path X (the (process_env P (js ''CLAUDE_CONFIG_DIR''))))
         else homedir P @ [js ''.codemachine'', js ''claude''])"

definition getCredentialsPath :: "path \<Rightarrow> path" where
  "getCredentialsPath configDir = configDir @ [js ''.credentials.json'']"

definition getClaudeAuthPaths :: "path \<Rightarrow> path list" where
  "getClaudeAuthPaths configDir =
     [getCredentialsPath configDir,
      configDir @ [js ''.claude.json''],
      configDir @ [js ''.claude.json.backup'']]"

definition isAuthenticated_claude ::
  "paths \<Rightarrow> process \<Rightarrow> ClaudeAuthOptions option \<Rightarrow> bool io" where
  "isAuthenticated_claude X P options =
     (if env_truthy P (js ''CLAUDE_CODE_OAUTH_TOKEN'') then returnIO True
      else
        (let configDir = resolveClaudeConfigDir X P options;
             credPath = getCredentialsPath configDir
         in catchIO (bindIO (stat credPath) (\<lambda>u. returnIO True)) (\<lambda>e. returnIO False)))"

definition INFO :: jsstring where
  "INFO = js ''  '' @ [0x2139, 0xFE0F] @ js ''  ''"

definition tokenNotice :: "unit io" where
  "tokenNotice =
     bindIO (consoleError ([LF] @ RULE)) (\<lambda>u.
     bindIO (consoleError (INFO @ js ''Claude CLI Authentication Notice'')) (\<lambda>u.
     bindIO (consoleError RULE) (\<lambda>u.
     bindIO (consoleError ([LF] @
               js ''Your Claude CLI installation uses token-based authentication.'')) (\<lambda>u.
     bindIO (consoleError
               (js ''Please set the token you received as an environment variable:'' @ [LF]))
       (\<lambda>u.
     bindIO (consoleError (js ''  export CLAUDE_CODE_OAUTH_TOKEN=<your-token>'' @ [LF])) (\<lambda>u.
     bindIO (consoleError
               (js ''For persistence, add this line to your shell configuration:'')) (\<lambda>u.
     bindIO (consoleError (js ''  ~/.bashrc (Bash) or ~/.zshrc (Zsh)'' @ [LF])) (\<lambda>u.
     consoleError (RULE @ [LF])))))))))"

definition ensureAuth_claude ::
  "EngineMetadata \<Rightarrow> execa \<Rightarrow> paths \<Rightarrow> process \<Rightarrow> ClaudeAuthOptions option \<Rightarrow> bool io" where
  "ensureAuth_claude md execa X P options =
     (if env_truthy P (js ''CLAUDE_CODE_OAUTH_TOKEN'') then returnIO True
      else
        (let configDir = resolveClaudeConfigDir X P options;
             credPath = getCredentialsPath configDir
         in bindIO (catchIO (bindIO (stat credPath) (\<lambda>u. returnIO True))
                      (\<lambda>e. returnIO False)) (\<lambda>found.
            if found then returnIO True
            else if process_env P (js ''CODEMACHINE_SKIP_AUTH'') = Some (js ''1'')
            then
              (let claudeDir = butlast credPath
               in bindIO (mkdir_recursive claudeDir) (\<lambda>u.
                  bindIO (writeFile credPath (js ''{}'')) (\<lambda>u. returnIO True)))
            else
              bindIO (isCliInstalled_claude execa (cliBinary md)) (\<lambda>cliInstalled.
                if \<not> cliInstalled
                then bindIO (notInstalledBanner (engineName md) (cliBinary md)
                               (installCommand md))
                       (\<lambda>u. throwIO (notInstalledError (engineName md)))
                else
                  bindIO (consoleLog ([LF] @ js ''Running Claude authentication...'' @ [LF]))
                    (\<lambda>u.
                  bindIO (consoleLog (js ''Config directory: '' @ show_path X configDir @ [LF]))
                    (\<lambda>u.
                  bindIO (bindIO (attempt execa (js ''claude'') [js ''setup-token'']
                                    (loginOptions (js ''CLAUDE_CONFIG_DIR'')
                                       (show_path X configDir)))
                            (\<lambda>outcome.
                               case outcome of
                                 Inr r \<Rightarrow> returnIO ()
                               | Inl error \<Rightarrow>
                                   if loginNotFound error
                                   then bindIO (notFoundBanner (engineName md) (cliBinary md)
                                                  (js ''setup-token'') (installCommand md))
                                          (\<lambda>u. throwIO (notInstalledError (engineName md)))
                                   else throwIO (ProcError error))) (\<lambda>u.
                  catchIO (bindIO (stat credPath) (\<lambda>u. returnIO True))
                    (\<lambda>e. bindIO tokenNotice (\<lambda>u.
                       throwIO (Error (js
                         ''Authentication incomplete. Please set CLAUDE_CODE_OAUTH_TOKEN environment variable.'')))))))))))"

text \<open>
  \<open>clearAuth\<close> of the Claude engine removes the three files, each removal in a \<open>try\<close> of
  its own. The removals touch different paths; they are taken in the order of the list.
\<close>

fun removeAll :: "path list \<Rightarrow> unit io" where
  "removeAll [] = returnIO ()"
| "removeAll (p # ps) =
     bindIO (catchIO (rm_force p) (\<lambda>e. returnIO ())) (\<lambda>u. removeAll ps)"

definition clearAuth_claude :: "paths \<Rightarrow> process \<Rightarrow> ClaudeAuthOptions option \<Rightarrow> unit io" where
  "clearAuth_claude X P options =
     (let configDir = resolveClaudeConfigDir X P options;
          authPaths = getClaudeAuthPaths configDir
      in removeAll authPaths)"

section \<open>Selecting a workflow template\<close>

record WorkflowStep =
  step_type :: jsstring
  agentId :: jsstring
  agentName :: jsstring
  promptPath :: jsstring

record WorkflowTemplate =
  template_name :: jsstring
  steps :: "WorkflowStep list"

text \<open>
  The template tracking of the shared agents module and the workspace bootstrap are not
  among the sources and are parameters: \<open>hasTemplateChanged\<close> reads the marker,
  \<open>setActiveTemplate\<close> and \<open>bootstrapWorkspace\<close> change the file system; each may reject.
\<close>

record collaborators =
  hasTemplateChanged :: "path \<Rightarrow> jsstring \<Rightarrow> tree \<Rightarrow> js_error + bool"
  setActiveTemplate :: "path \<Rightarrow> jsstring \<Rightarrow> tree \<Rightarrow> (js_error + unit) \<times> tree"
  bootstrapWorkspace :: "path \<Rightarrow> path \<Rightarrow> tree \<Rightarrow> (js_error + unit) \<times> tree"

definition call_hasTemplateChanged :: "collaborators \<Rightarrow> path \<Rightarrow> jsstring \<Rightarrow> bool io" where
  "call_hasTemplateChanged K root name w =
     (hasTemplateChanged K root name (nodes w), emit (HasTemplateChanged root name) w)"

definition call_setActiveTemplate :: "collaborators \<Rightarrow> path \<Rightarrow> jsstring \<Rightarrow> unit io" where
  "call_setActiveTemplate K root name w =
     (case setActiveTemplate K root name (nodes w) of
        (r, t) \<Rightarrow> (r, emit (SetActiveTemplate root name) (w\<lparr>nodes := t\<rparr>)))"

definition call_bootstrapWorkspace :: "collaborators \<Rightarrow> path \<Rightarrow> path \<Rightarrow> unit io" where
  "call_bootstrapWorkspace K dir templatePath w =
     (case bootstrapWorkspace K dir templatePath (nodes w) of
        (r, t) \<Rightarrow> (r, emit (BootstrapWorkspace dir templatePath) (w\<lparr>nodes := t\<rparr>)))"

text \<open>\<open>path.basename\<close>\<close>

definition basename :: "path \<Rightarrow> jsstring" where
  "basename p = (if p = [] then [] else last p)"

text \<open>The lines of \<open>template.steps.forEach\<close>, numbered from \<open>index + 1\<close>.\<close>

fun logSteps :: "nat \<Rightarrow> WorkflowStep list \<Rightarrow> unit io" where
  "logSteps index [] = returnIO ()"
| "logSteps index (step # rest) =
     bindIO (consoleLog (js ''  '' @ show_nat (index + 1) @ js ''. '' @ agentName step @
                         js '' ['' @ agentId step @ js '']''))
       (\<lambda>u. logSteps (index + 1) rest)"

text \<open>\<open>process.env.CODEMACHINE_CWD || process.cwd()\<close>, and the agents directory below it.\<close>

definition workspaceDir :: "paths \<Rightarrow> process \<Rightarrow> path" where
  "workspaceDir X P =
     (if env_truthy P (js ''CODEMACHINE_CWD'')
      then parse_path X (the (process_env P (js ''CODEMACHINE_CWD'')))
      else process_cwd P)"

definition cmRootOf :: "paths \<Rightarrow> process \<Rightarrow> path" where
  "cmRootOf X P = workspaceDir X P @ [js ''.codemachine'']"

definition agentsDirOf :: "paths \<Rightarrow> process \<Rightarrow> path" where
  "agentsDirOf X P = cmRootOf X P @ [js ''agents'']"

definition handleTemplateSelectionSuccess ::
  "collaborators \<Rightarrow> paths \<Rightarrow> process \<Rightarrow> WorkflowTemplate \<Rightarrow> path \<Rightarrow> unit io" where
  "handleTemplateSelectionSuccess K X P template templateFilePath =
     (let templateFileName = basename templateFilePath;
          dir = workspaceDir X P;
          cmRoot = cmRootOf X P;
          agentsDir = agentsDirOf X P
      in bindIO (consoleLog ([LF] @ js ''Selected: '' @ template_name template)) (\<lambda>u.
         bindIO (consoleLog (js ''Template path: '' @
                             relative X (process_cwd P) templateFilePath)) (\<lambda>u.
         bindIO (consoleLog ([LF] @ js ''Steps:'')) (\<lambda>u.
         bindIO (logSteps 0 (steps template)) (\<lambda>u.
         bindIO (call_hasTemplateChanged K cmRoot templateFileName) (\<lambda>changed.
         bindIO
           (if changed
            then
              bindIO (consoleLog ([LF] @ [0xD83D, 0xDD04] @
                                  js '' Template changed, regenerating agents...'')) (\<lambda>u.
              bindIO (existsSync agentsDir) (\<lambda>present.
              bindIO (if present then rm_recursive agentsDir else returnIO ()) (\<lambda>u.
              bindIO (call_setActiveTemplate K cmRoot templateFileName) (\<lambda>u.
              bindIO (call_bootstrapWorkspace K dir templateFilePath) (\<lambda>u.
              consoleLog ([0x2705] @ js '' Agents regenerated successfully''))))))
            else
              bindIO (consoleLog ([LF] @ [0x2713] @
                                  js '' Template unchanged, agents folder up to date'')) (\<lambda>u.
              call_setActiveTemplate K cmRoot templateFileName))
           (\<lambda>u.
         consoleLog ([LF] @ [0x2705] @
                     js '' Template saved to .codemachine/template.json''))))))))"

text \<open>
  What is left of a trace without the console lines, and the tree after the removal of
  the agents directory, which takes place when something exists at its path.
\<close>

definition isConsole :: "event \<Rightarrow> bool" where
  "isConsole e = (case e of ConsoleLog s \<Rightarrow> True | ConsoleError s \<Rightarrow> True | _ \<Rightarrow> False)"

definition calls :: "event list \<Rightarrow> event list" where
  "calls tr = filter (\<lambda>e. \<not> isConsole e) tr"

definition withoutAgents :: "paths \<Rightarrow> process \<Rightarrow> tree \<Rightarrow> tree" where
  "withoutAgents X P t =
     (if t (agentsDirOf X P) \<noteq> None
      then (\<lambda>q. if below (agentsDirOf X P) q then None else t q)
      else t)"

section \<open>Example data\<close>

text \<open>
  Concrete collaborators and inputs, used to run the definitions. Numbers are integers,
  \<open>example_parse\<close> knows one protocol line, telemetry is a counter of captured chunks.
\<close>

definition example_line :: jsstring where
  \<open>example_line =
     js ''{"status":"completed","output":[{"type":"message","content":[{"text":"hi"}]}]}''\<close>

definition example_event :: "int jsval" where
  "example_event =
     JObj [(js ''status'', JStr (js ''completed'')),
           (js ''output'',
            JArr [JObj [(js ''type'', JStr (js ''message'')),
                        (js ''content'', JArr [JObj [(js ''text'', JStr (js ''hi''))]])]])]"

definition example_parse :: "jsstring \<Rightarrow> int jsval option" where
  "example_parse s = (if s = example_line then Some example_event else None)"

definition example_builtins :: "int builtins" where
  "example_builtins =
     \<lparr> JSON_parse = example_parse, num_zero = 0, num_one = 1, num_nan = - 1,
       num_add = (\<lambda>a b. a + b), num_is_zero = (\<lambda>a. a = 0), num_is_nan = (\<lambda>a. a = - 1),
       num_to_string = show_int \<rparr>"

definition example_telemetry :: "nat telemetry_capture" where
  "example_telemetry = observingCapture (\<lambda>engine m p d. 0) (\<lambda>data n. n + 1) (\<lambda>code n. n)"


text \<open>
  An environment string names a directory right below the root; a path is shown with
  slashes. The user's home is \<open>/home/u\<close>, the working directory \<open>/work\<close>, and
  \<open>example_env\<close> sets the listed variables.
\<close>

definition example_paths :: paths where
  "example_paths =
     \<lparr> parse_path = (\<lambda>s. [s]),
       show_path = (\<lambda>p. concat (map (\<lambda>c. 47 # c) p)),
       relative = (\<lambda>a b. concat (map (\<lambda>c. 47 # c) b)),
       expandHomeDir = (\<lambda>p. p) \<rparr>"

definition example_env :: "(string \<times> string) list \<Rightarrow> process" where
  "example_env kvs =
     \<lparr> process_env = map_of (map (\<lambda>(k, v). (js k, js v)) kvs),
       homedir = [js ''home'', js ''u''], process_cwd = [js ''work''] \<rparr>"

definition example_process :: process where
  "example_process = example_env []"

definition example_options :: RunLocalOptions where
  "example_options =
     \<lparr> prompt = js ''hello'', workingDir = js ''/work'', model = None,
       modelReasoningEffort = None, env = None, onData = True, onErrorData = True,
       abortSignal = None, timeout = None \<rparr>"

definition example_stringify :: "request_body \<Rightarrow> jsstring" where
  "example_stringify body = body_input body"

text \<open>A child that prints two lines to stderr and exits with code 2.\<close>

definition example_failing_child ::
  "nat run_state SpawnOptions \<Rightarrow> nat run_state \<Rightarrow> (proc_error + SpawnResult) \<times> nat run_state" where
  "example_failing_child opts st =
     (Inr \<lparr> stdout = [], stderr = js ''boom'' @ [LF] @ js ''more'' @ [LF], exitCode = 2 \<rparr>, st)"

text \<open>A runner that finds no binary.\<close>

definition example_missing_binary ::
  "nat run_state SpawnOptions \<Rightarrow> nat run_state \<Rightarrow> (proc_error + SpawnResult) \<times> nat run_state" where
  "example_missing_binary opts st =
     (Inl \<lparr> err_code = Some (js ''ENOENT''), err_stderr = None,
            err_message = Some (js ''spawn curl ENOENT'') \<rparr>, st)"

text \<open>
  A file system with nothing but the root, and one where a file \<open>/blocked\<close> exists. A
  machine without the binary: the version probe resolves without an exit code, every
  other command is rejected with \<open>ENOENT\<close>.
\<close>

definition example_root :: world where
  "example_root = \<lparr> nodes = [[] \<mapsto> Dir], trace = [] \<rparr>"

definition example_blocked :: world where
  "example_blocked = \<lparr> nodes = [[] \<mapsto> Dir, [js ''blocked''] \<mapsto> File (js ''x'')], trace = [] \<rparr>"

definition example_no_binary :: execa where
  "example_no_binary c a opts t =
     (if x_reject opts
      then (Inl \<lparr> err_code = Some (js ''ENOENT''), err_stderr = None,
                   err_message = Some (js ''spawn ENOENT'') \<rparr>, t)
      else (Inr \<lparr> x_exitCode = None, x_stdout = None, x_stderr = None \<rparr>, t))"

definition example_claude_metadata :: EngineMetadata where
  "example_claude_metadata =
     \<lparr> engineId = js ''claude'', engineName = js ''Claude'', description = js ''Claude'',
       cliCommand = js ''claude'', cliBinary = js ''claude'',
       installCommand = js ''npm install -g @anthropic-ai/claude-code'',
       defaultModel = js ''sonnet'', defaultModelReasoningEffort = None, engineOrder = 2 \<rparr>"

text \<open>
  A workspace \<open>/work/.codemachine\<close> whose marker names \<open>a.workflow.js\<close> and whose agents
  directory holds one generated file. The marker is the file \<open>template.json\<close>; the
  bootstrap creates the agents directory with one file named after the template.
\<close>

definition example_collaborators :: collaborators where
  "example_collaborators =
     \<lparr> hasTemplateChanged =
         (\<lambda>root name t. Inr (t (root @ [js ''template.json'']) \<noteq> Some (File name))),
       setActiveTemplate =
         (\<lambda>root name t. (Inr (), t(root @ [js ''template.json''] \<mapsto> File name))),
       bootstrapWorkspace =
         (\<lambda>dir file t.
            (Inr (), t(dir @ [js ''.codemachine'', js ''agents''] \<mapsto> Dir,
                       dir @ [js ''.codemachine'', js ''agents'', js ''new.md''] \<mapsto>
                         File (basename file)))) \<rparr>"

definition example_workspace :: world where
  "example_workspace =
     \<lparr> nodes = [[] \<mapsto> Dir,
                 [js ''work''] \<mapsto> Dir,
                 [js ''work'', js ''.codemachine''] \<mapsto> Dir,
                 [js ''work'', js ''.codemachine'', js ''template.json''] \<mapsto>
                   File (js ''a.workflow.js''),
                 [js ''work'', js ''.codemachine'', js ''agents''] \<mapsto> Dir,
                 [js ''work'', js ''.codemachine'', js ''agents'', js ''old.md''] \<mapsto>
                   File (js ''old'')],
       trace = [] \<rparr>"

definition example_template :: WorkflowTemplate where
  "example_template =
     \<lparr> template_name = js ''Example'',
       steps = [\<lparr> step_type = js ''module'', agentId = js ''planner'',
                  agentName = js ''Planner'', promptPath = js ''planner.md'' \<rparr>] \<rparr>"

section \<open>Properties of the stream decoder\<close>



lemma startsWith_append [simp]: "startsWith (p @ s) p"
  by (simp add: startsWith_def)




section \<open>Evaluating string comparisons\<close>

lemma js_eq_iff [simp]: "js a = js b \<longleftrightarrow> a = b"
proof -
  have "inj (of_char :: char \<Rightarrow> nat)" by (simp add: inj_def)
  then show ?thesis by (simp add: js_def inj_map_eq_map)
qed

lemma js_Nil_iff [simp]: "js a = [] \<longleftrightarrow> a = []" "[] = js a \<longleftrightarrow> a = []"
  by (auto simp: js_def)


section \<open>Properties of the normalization\<close>









section \<open>Properties of the file system operations\<close>

text \<open>
  Creating directories changes nothing that exists: what is new are directories on the
  way from the starting point to the target. After success the target is a directory,
  and creating it again changes nothing and ends the same way.
\<close>

lemma mkdirs_frame:
  "mkdirs pre cs t = (r, t') \<Longrightarrow>
   t' p = t p \<or> (t p = None \<and> t' p = Some Dir \<and> below p (pre @ cs) \<and> length pre < length p)"
proof (induction cs arbitrary: pre t)
  case Nil
  then show ?case by simp
next
  case (Cons c cs)
  show ?case
  proof (cases "c = []")
    case True
    with Cons.prems show ?thesis by simp
  next
    case named: False
    show ?thesis
    proof (cases "t (pre @ [c])")
      case None
      with named Cons.prems
      have m: "mkdirs (pre @ [c]) cs (t(pre @ [c] \<mapsto> Dir)) = (r, t')" by simp
      from Cons.IH [OF m] None show ?thesis
        by (cases "p = pre @ [c]") (auto simp: below_def split: if_splits)
    next
      case (Some n)
      show ?thesis
      proof (cases n)
        case (File d)
        with named Some Cons.prems show ?thesis by simp
      next
        case Dir
        with named Some Cons.prems have m: "mkdirs (pre @ [c]) cs t = (r, t')" by simp
        from Cons.IH [OF m] show ?thesis by (auto simp: below_def)
      qed
    qed
  qed
qed

lemma mkdirs_preserves: "mkdirs pre cs t = (r, t') \<Longrightarrow> t p \<noteq> None \<Longrightarrow> t' p = t p"
  using mkdirs_frame [of pre cs t r t' p] by auto

lemma mkdirs_made: "mkdirs pre cs t = (None, t') \<Longrightarrow> cs \<noteq> [] \<Longrightarrow> t' (pre @ cs) = Some Dir"
proof (induction cs arbitrary: pre t)
  case Nil
  then show ?case by simp
next
  case (Cons c cs)
  show ?case
  proof (cases "cs = []")
    case True
    with Cons.prems show ?thesis by (auto split: if_splits option.splits node.splits)
  next
    case False
    from Cons.prems obtain t1 where "mkdirs (pre @ [c]) cs t1 = (None, t')"
      by (auto split: if_splits option.splits node.splits)
    from Cons.IH [OF this False] show ?thesis by simp
  qed
qed

lemma mkdirs_idem: "mkdirs pre cs t = (r, t') \<Longrightarrow> mkdirs pre cs t' = (r, t')"
proof (induction cs arbitrary: pre t)
  case Nil
  then show ?case by simp
next
  case (Cons c cs)
  show ?case
  proof (cases "c = []")
    case True
    with Cons.prems show ?thesis by auto
  next
    case named: False
    show ?thesis
    proof (cases "t (pre @ [c])")
      case None
      with named Cons.prems
      have m: "mkdirs (pre @ [c]) cs (t(pre @ [c] \<mapsto> Dir)) = (r, t')" by simp
      from mkdirs_preserves [OF m, of "pre @ [c]"] have "t' (pre @ [c]) = Some Dir" by simp
      with named Cons.IH [OF m] show ?thesis by simp
    next
      case (Some n)
      show ?thesis
      proof (cases n)
        case (File d)
        with named Some Cons.prems show ?thesis by auto
      next
        case Dir
        with named Some Cons.prems have m: "mkdirs (pre @ [c]) cs t = (r, t')" by simp
        from mkdirs_preserves [OF m, of "pre @ [c]"] Some Dir
        have "t' (pre @ [c]) = Some Dir" by simp
        with named Cons.IH [OF m] show ?thesis by simp
      qed
    qed
  qed
qed

lemma mkdirs_update_elsewhere:
  "\<not> below p (pre @ cs) \<or> length p \<le> length pre \<Longrightarrow>
   mkdirs pre cs (t(p := v)) = (fst (mkdirs pre cs t), (snd (mkdirs pre cs t))(p := v))"
proof (induction cs arbitrary: pre t)
  case Nil
  show ?case by simp
next
  case (Cons c cs)
  from Cons.prems have ne: "p \<noteq> pre @ [c]" by (auto simp: below_def)
  from Cons.prems have next': "\<not> below p ((pre @ [c]) @ cs) \<or> length p \<le> length (pre @ [c])"
    by auto
  from ne have look: "(t(p := v)) (pre @ [c]) = t (pre @ [c])" by simp
  show ?case
  proof (cases "c = []")
    case True
    then show ?thesis by simp
  next
    case named: False
    show ?thesis
    proof (cases "t (pre @ [c])")
      case None
      from ne have "(t(p := v))(pre @ [c] \<mapsto> Dir) = (t(pre @ [c] \<mapsto> Dir))(p := v)"
        by (rule fun_upd_twist)
      then have "mkdirs pre (c # cs) (t(p := v)) =
          mkdirs (pre @ [c]) cs ((t(pre @ [c] \<mapsto> Dir))(p := v))"
        using named None look by (simp del: fun_upd_apply)
      also have "\<dots> = (fst (mkdirs (pre @ [c]) cs (t(pre @ [c] \<mapsto> Dir))),
                       (snd (mkdirs (pre @ [c]) cs (t(pre @ [c] \<mapsto> Dir))))(p := v))"
        by (rule Cons.IH [OF next'])
      also have "mkdirs (pre @ [c]) cs (t(pre @ [c] \<mapsto> Dir)) = mkdirs pre (c # cs) t"
        using named None by simp
      finally show ?thesis .
    next
      case (Some n)
      show ?thesis
      proof (cases n)
        case (File d)
        with named Some look show ?thesis by (simp del: fun_upd_apply)
      next
        case Dir
        with named Some look
        have "mkdirs pre (c # cs) (t(p := v)) = mkdirs (pre @ [c]) cs (t(p := v))"
          by (simp del: fun_upd_apply)
        also have "\<dots> = (fst (mkdirs (pre @ [c]) cs t), (snd (mkdirs (pre @ [c]) cs t))(p := v))"
          by (rule Cons.IH [OF next'])
        also have "mkdirs (pre @ [c]) cs t = mkdirs pre (c # cs) t"
          using named Some Dir by simp
        finally show ?thesis .
      qed
    qed
  qed
qed

section \<open>Properties of the authentication functions\<close>

lemmas io_defs = returnIO_def throwIO_def bindIO_def catchIO_def emit_def consoleError_def
  consoleLog_def stat_def

lemma not_below_child [simp]: "\<not> below (d @ [a]) d"
proof
  assume "below (d @ [a]) d"
  then have "length (take (length (d @ [a])) d) = length (d @ [a])"
    unfolding below_def by simp
  then show False by simp
qed

lemma mkdirs_keeps_child:
  assumes "mkdirs [] d t = (r, t')"
  shows "t' (d @ [a]) = t (d @ [a])"
  using mkdirs_frame [OF assms, of "d @ [a]"] by auto

lemma mkdir_recursive_eq:
  "mkdir_recursive p w =
     ((case fst (mkdirs [] p (nodes w)) of None \<Rightarrow> Inr () | Some c \<Rightarrow> Inl (FsError c p)),
      \<lparr> nodes = snd (mkdirs [] p (nodes w)), trace = trace w @ [Mkdir p] \<rparr>)"
  by (simp add: mkdir_recursive_def emit_def split: prod.splits option.splits)

lemma mkdir_ok_iff: "fst (mkdir_recursive p w) = Inr () \<longleftrightarrow> fst (mkdirs [] p (nodes w)) = None"
  by (simp add: mkdir_recursive_eq split: option.splits)

text \<open>The empty string is no directory: \<open>mkdir\<close> rejects it and creates nothing.\<close>

lemma mkdir_recursive_empty_string:
  "mkdir_recursive [[]] w = (Inl (FsError ENOENT [[]]), w\<lparr>trace := trace w @ [Mkdir [[]]]\<rparr>)"
  by (simp add: mkdir_recursive_def emit_def)

lemma isAuthenticated_claude_result:
  "isAuthenticated_claude X P options w =
     (if env_truthy P (js ''CLAUDE_CODE_OAUTH_TOKEN'') then (Inr True, w)
      else (Inr (nodes w (getCredentialsPath (resolveClaudeConfigDir X P options)) \<noteq> None),
            w\<lparr>trace := trace w @ [Stat (getCredentialsPath (resolveClaudeConfigDir X P options))]\<rparr>))"
  by (simp add: isAuthenticated_claude_def io_defs Let_def)

lemma isAuthenticated_result:
  "isAuthenticated X P w =
     (let home = localHomePath X P None;
          t = snd (mkdirs [] home (nodes w))
      in case fst (mkdirs [] home (nodes w)) of
           None \<Rightarrow> (Inr (nodes w (getAuthFilePath home) \<noteq> None),
                     \<lparr> nodes = t, trace = trace w @ [Mkdir home, Stat (getAuthFilePath home)] \<rparr>)
         | Some c \<Rightarrow> (Inl (FsError c home), \<lparr> nodes = t, trace = trace w @ [Mkdir home] \<rparr>))"
proof -
  obtain r t where m: "mkdirs [] (localHomePath X P None) (nodes w) = (r, t)"
    by (cases "mkdirs [] (localHomePath X P None) (nodes w)")
  from mkdirs_keeps_child [OF m] have "t (getAuthFilePath (localHomePath X P None)) =
      nodes w (getAuthFilePath (localHomePath X P None))"
    by (simp add: getAuthFilePath_def)
  with m show ?thesis
    by (simp add: isAuthenticated_def resolveLocalHome_def mkdir_recursive_eq io_defs Let_def
        split: option.splits)
qed

lemma rm_caught:
  "catchIO (rm_force p) (\<lambda>e. returnIO ()) w =
     (Inr (), \<lparr> nodes = (case nodes w p of Some (File d) \<Rightarrow> (nodes w)(p := None) | _ \<Rightarrow> nodes w),
               trace = trace w @ [Rm p] \<rparr>)"
  by (simp add: rm_force_def io_defs split: option.splits node.splits)

lemma removeAll_result:
  "removeAll ps w =
     (Inr (), \<lparr> nodes = (\<lambda>q. if q \<in> set ps \<and> (\<exists>d. nodes w q = Some (File d)) then None
                            else nodes w q),
               trace = trace w @ map Rm ps \<rparr>)"
proof (induction ps arbitrary: w)
  case Nil
  show ?case by (simp add: returnIO_def)
next
  case (Cons p ps)
  show ?case
    by (simp add: bindIO_def rm_caught Cons.IH)
       (auto simp: fun_eq_iff split: option.splits node.splits)
qed

lemma clearAuth_claude_idempotent:
  "fst (clearAuth_claude X P options w) = Inr () \<and>
   fst (clearAuth_claude X P options (snd (clearAuth_claude X P options w))) = Inr () \<and>
   nodes (snd (clearAuth_claude X P options (snd (clearAuth_claude X P options w)))) =
     nodes (snd (clearAuth_claude X P options w))"
  by (auto simp: clearAuth_claude_def removeAll_result Let_def fun_eq_iff)

lemma clearAuth_fst:
  "fst (clearAuth X P w) =
     (case fst (mkdirs [] (localHomePath X P None) (nodes w)) of
        None \<Rightarrow> Inr ()
      | Some c \<Rightarrow> Inl (FsError c (localHomePath X P None)))"
  by (simp add: clearAuth_def resolveLocalHome_def mkdir_recursive_eq bindIO_def returnIO_def
      rm_caught Let_def split: option.splits)

lemma clearAuth_nodes:
  "nodes (snd (clearAuth X P w)) =
     (let home = localHomePath X P None;
          t = snd (mkdirs [] home (nodes w))
      in if fst (mkdirs [] home (nodes w)) = None \<and> (\<exists>d. t (getAuthFilePath home) = Some (File d))
         then t(getAuthFilePath home := None) else t)"
  by (auto simp: clearAuth_def resolveLocalHome_def mkdir_recursive_eq bindIO_def returnIO_def
      rm_caught Let_def split: option.splits node.splits)

lemma clearAuth_idempotent:
  "fst (clearAuth X P (snd (clearAuth X P w))) = fst (clearAuth X P w) \<and>
   nodes (snd (clearAuth X P (snd (clearAuth X P w)))) = nodes (snd (clearAuth X P w))"
proof -
  let ?home = "localHomePath X P None"
  let ?auth = "getAuthFilePath ?home"
  obtain r t where m: "mkdirs [] ?home (nodes w) = (r, t)"
    by (cases "mkdirs [] ?home (nodes w)")
  define t1 where "t1 = (if r = None \<and> (\<exists>d. t ?auth = Some (File d)) then t(?auth := None) else t)"
  from mkdirs_idem [OF m] have again: "mkdirs [] ?home t = (r, t)" .
  have other: "\<not> below ?auth ([] @ ?home) \<or> length ?auth \<le> length ([] :: path)"
    by (simp add: getAuthFilePath_def)
  from mkdirs_update_elsewhere [OF other, of t None] again
  have removed: "mkdirs [] ?home (t(?auth := None)) = (r, t(?auth := None))" by simp
  have first: "nodes (snd (clearAuth X P w)) = t1"
    using m by (simp add: clearAuth_nodes t1_def Let_def)
  have m1: "mkdirs [] ?home t1 = (r, t1)"
    using again removed by (simp add: t1_def)
  have "\<not> (r = None \<and> (\<exists>d. t1 ?auth = Some (File d))) \<or> t1(?auth := None) = t1"
    by (auto simp: t1_def)
  then have second: "nodes (snd (clearAuth X P (snd (clearAuth X P w)))) = t1"
    using m1 first by (auto simp: clearAuth_nodes [of X P "snd (clearAuth X P w)"] Let_def)
  show ?thesis
    using m m1 first second
    by (simp add: clearAuth_fst)
qed

lemma stat_found:
  "catchIO (bindIO (stat p) (\<lambda>u. returnIO True)) (\<lambda>e. returnIO False) w =
     (Inr (nodes w p \<noteq> None), w\<lparr>trace := trace w @ [Stat p]\<rparr>)"
  by (simp add: io_defs)

lemma mkdirs_target_dir:
  assumes "mkdirs [] d t = (None, t')" and "t [] = Some Dir"
  shows "t' d = Some Dir"
proof (cases "d = []")
  case True
  with assms show ?thesis by simp
next
  case False
  from mkdirs_made [OF assms(1) False] show ?thesis by simp
qed

lemma writeFile_new:
  assumes "nodes w (butlast p) = Some Dir" and "nodes w p = None" and "p \<noteq> []"
  shows "writeFile p data w =
           (Inr (), \<lparr> nodes = (nodes w)(p \<mapsto> File data), trace = trace w @ [WriteFile p data] \<rparr>)"
  using assms by (simp add: writeFile_def emit_def)

lemma ensureAuth_skip:
  assumes skip: "process_env P (js ''CODEMACHINE_SKIP_AUTH'') = Some (js ''1'')"
    and root: "nodes w [] = Some Dir"
    and absent: "nodes w (getAuthFilePath (localHomePath X P None)) = None"
    and home: "fst (mkdir_recursive (localHomePath X P None) w) = Inr ()"
  shows "ensureAuth execa X P w =
           (Inr True,
            \<lparr> nodes = (snd (mkdirs [] (localHomePath X P None) (nodes w)))
                        (getAuthFilePath (localHomePath X P None) \<mapsto> File (js ''{}'')),
              trace = trace w @ [Mkdir (localHomePath X P None),
                                 Stat (getAuthFilePath (localHomePath X P None)),
                                 WriteFile (getAuthFilePath (localHomePath X P None)) (js ''{}'')] \<rparr>)"
proof -
  let ?home = "localHomePath X P None"
  let ?auth = "getAuthFilePath ?home"
  obtain t where m: "mkdirs [] ?home (nodes w) = (None, t)"
    using home by (cases "mkdirs [] ?home (nodes w)") (simp add: mkdir_ok_iff)
  let ?w1 = "\<lparr> nodes = t, trace = trace w @ [Mkdir ?home] \<rparr>"
  let ?w2 = "\<lparr> nodes = t, trace = trace w @ [Mkdir ?home, Stat ?auth] \<rparr>"
  have r: "resolveLocalHome X P None w = (Inr ?home, ?w1)"
    using m by (simp add: resolveLocalHome_def mkdir_recursive_eq bindIO_def returnIO_def Let_def)
  have a: "t ?auth = None"
    using mkdirs_keeps_child [OF m] absent by (simp add: getAuthFilePath_def)
  have d: "t ?home = Some Dir"
    using mkdirs_target_dir [OF m root] .
  have s: "catchIO (bindIO (stat ?auth) (\<lambda>u. returnIO True)) (\<lambda>e. returnIO False) ?w1 =
             (Inr False, ?w2)"
    using a by (simp add: stat_found)
  have wr: "writeFile ?auth (js ''{}'') ?w2 =
      (Inr (), \<lparr> nodes = t(?auth \<mapsto> File (js ''{}'')),
                 trace = trace w @ [Mkdir ?home, Stat ?auth, WriteFile ?auth (js ''{}'')] \<rparr>)"
    using writeFile_new [of ?w2 ?auth "js ''{}''"] a d by (simp add: getAuthFilePath_def)
  show ?thesis
    using m skip by (simp add: ensureAuth_def bindIO_def r s wr returnIO_def Let_def)
qed

lemma ensureAuth_claude_skip:
  assumes token: "\<not> env_truthy P (js ''CLAUDE_CODE_OAUTH_TOKEN'')"
    and skip: "process_env P (js ''CODEMACHINE_SKIP_AUTH'') = Some (js ''1'')"
    and root: "nodes w [] = Some Dir"
    and absent: "nodes w (getCredentialsPath (resolveClaudeConfigDir X P options)) = None"
    and home: "fst (mkdir_recursive (resolveClaudeConfigDir X P options) w) = Inr ()"
  shows "ensureAuth_claude md execa X P options w =
           (Inr True,
            \<lparr> nodes = (snd (mkdirs [] (resolveClaudeConfigDir X P options) (nodes w)))
                        (getCredentialsPath (resolveClaudeConfigDir X P options) \<mapsto>
                           File (js ''{}'')),
              trace = trace w @
                [Stat (getCredentialsPath (resolveClaudeConfigDir X P options)),
                 Mkdir (resolveClaudeConfigDir X P options),
                 WriteFile (getCredentialsPath (resolveClaudeConfigDir X P options))
                   (js ''{}'')] \<rparr>)"
proof -
  let ?dir = "resolveClaudeConfigDir X P options"
  let ?cred = "getCredentialsPath ?dir"
  have bl: "butlast ?cred = ?dir" by (simp add: getCredentialsPath_def)
  obtain t where m: "mkdirs [] ?dir (nodes w) = (None, t)"
    using home by (cases "mkdirs [] ?dir (nodes w)") (simp add: mkdir_ok_iff)
  let ?w1 = "w\<lparr>trace := trace w @ [Stat ?cred]\<rparr>"
  let ?w2 = "\<lparr> nodes = t, trace = trace w @ [Stat ?cred, Mkdir ?dir] \<rparr>"
  have s: "catchIO (bindIO (stat ?cred) (\<lambda>u. returnIO True)) (\<lambda>e. returnIO False) w =
             (Inr False, ?w1)"
    using absent by (simp add: stat_found)
  have mk: "mkdir_recursive ?dir ?w1 = (Inr (), ?w2)"
    using m by (simp add: mkdir_recursive_eq)
  have a: "t ?cred = None"
    using mkdirs_keeps_child [OF m] absent by (simp add: getCredentialsPath_def)
  have d: "t ?dir = Some Dir"
    using mkdirs_target_dir [OF m root] .
  have wr: "writeFile ?cred (js ''{}'') ?w2 =
      (Inr (), \<lparr> nodes = t(?cred \<mapsto> File (js ''{}'')),
                 trace = trace w @ [Stat ?cred, Mkdir ?dir, WriteFile ?cred (js ''{}'')] \<rparr>)"
    using writeFile_new [of ?w2 ?cred "js ''{}''"] a d by (simp add: getCredentialsPath_def)
  show ?thesis
    using m token skip
    by (simp add: ensureAuth_claude_def bindIO_def s bl mk wr returnIO_def Let_def)
qed

lemma attempt_eq:
  "attempt execa c a opts w =
     (Inr (fst (execa c a opts (nodes w))),
      \<lparr> nodes = snd (execa c a opts (nodes w)), trace = trace w @ [Exec c a] \<rparr>)"
  by (simp add: attempt_def emit_def split: prod.splits)

lemma isCliInstalled_result:
  "isCliInstalled execa cmd w =
     (Inr (case fst (execa cmd [js ''version''] versionProbe (nodes w)) of
             Inr r \<Rightarrow> x_exitCode r = Some 0
           | Inl e \<Rightarrow> False),
      \<lparr> nodes = snd (execa cmd [js ''version''] versionProbe (nodes w)),
        trace = trace w @ [Exec cmd [js ''version'']] \<rparr>)"
  by (simp add: isCliInstalled_def attempt_eq bindIO_def returnIO_def Let_def
      split: sum.splits)

lemma notInstalledBanner_result:
  "notInstalledBanner name binary install w =
     (Inr (),
      w\<lparr>trace := trace w @
         [ConsoleError ([10] @ RULE),
          ConsoleError (WARNING @ name @ js '' CLI Not Installed''),
          ConsoleError RULE,
          ConsoleError ([10] @ js ''The '' @ [39] @ binary @ [39] @
                        js '' command is not available.''),
          ConsoleError (js ''Please install '' @ name @ js '' CLI first:'' @ [10]),
          ConsoleError (js ''  '' @ install @ [10]),
          ConsoleError (RULE @ [10])]\<rparr>)"
  by (simp add: notInstalledBanner_def io_defs)

lemma notFoundBanner_result:
  "notFoundBanner name binary subcommand install w =
     (Inr (),
      w\<lparr>trace := trace w @
         [ConsoleError ([10] @ RULE),
          ConsoleError (WARNING @ name @ js '' CLI Not Found''),
          ConsoleError RULE,
          ConsoleError ([10] @ [39] @ binary @ js '' '' @ subcommand @ [39] @
                        js '' failed because the CLI is missing.''),
          ConsoleError (js ''Please install '' @ name @ js '' CLI before trying again:'' @ [10]),
          ConsoleError (js ''  '' @ install @ [10]),
          ConsoleError (RULE @ [10])]\<rparr>)"
  by (simp add: notFoundBanner_def io_defs)

lemma ensureAuth_not_installed:
  assumes home: "fst (mkdir_recursive (localHomePath X P None) w) = Inr ()"
    and absent: "nodes w (getAuthFilePath (localHomePath X P None)) = None"
    and skip: "process_env P (js ''CODEMACHINE_SKIP_AUTH'') \<noteq> Some (js ''1'')"
    and probe: "\<And>r. fst (execa (cliBinary metadata) [js ''version''] versionProbe
                          (snd (mkdirs [] (localHomePath X P None) (nodes w)))) = Inr r \<Longrightarrow>
                    x_exitCode r \<noteq> Some 0"
  shows "fst (ensureAuth execa X P w) = Inl (notInstalledError (engineName metadata)) \<and>
         ConsoleError (js ''  '' @ installCommand metadata @ [10]) \<in>
           set (trace (snd (ensureAuth execa X P w)))"
proof -
  let ?home = "localHomePath X P None"
  let ?auth = "getAuthFilePath ?home"
  obtain t where m: "mkdirs [] ?home (nodes w) = (None, t)"
    using home by (cases "mkdirs [] ?home (nodes w)") (simp add: mkdir_ok_iff)
  let ?w1 = "\<lparr> nodes = t, trace = trace w @ [Mkdir ?home] \<rparr>"
  have r: "resolveLocalHome X P None w = (Inr ?home, ?w1)"
    using m by (simp add: resolveLocalHome_def mkdir_recursive_eq bindIO_def returnIO_def Let_def)
  have a: "t ?auth = None"
    using mkdirs_keeps_child [OF m] absent by (simp add: getAuthFilePath_def)
  have p: "(case fst (execa (cliBinary metadata) [js ''version''] versionProbe t) of
             Inr r \<Rightarrow> x_exitCode r = Some 0 | Inl e \<Rightarrow> False) = False"
    using probe m by (auto split: sum.splits)
  show ?thesis
    using skip a p
    by (simp add: ensureAuth_def bindIO_def r stat_found isCliInstalled_result
        notInstalledBanner_result throwIO_def Let_def)
qed

lemma ensureAuth_login_not_found:
  assumes home: "fst (mkdir_recursive (localHomePath X P None) w) = Inr ()"
    and absent: "nodes w (getAuthFilePath (localHomePath X P None)) = None"
    and skip: "process_env P (js ''CODEMACHINE_SKIP_AUTH'') \<noteq> Some (js ''1'')"
    and probe: "fst (execa (cliBinary metadata) [js ''version''] versionProbe
                       (snd (mkdirs [] (localHomePath X P None) (nodes w)))) = Inr r"
               "x_exitCode r = Some 0"
    and login: "fst (execa (cliBinary metadata) [js ''status'']
                       (loginOptions (js ''LOCAL_HOME'') (show_path X (localHomePath X P None)))
                       (snd (execa (cliBinary metadata) [js ''version''] versionProbe
                          (snd (mkdirs [] (localHomePath X P None) (nodes w)))))) = Inl pe"
               "loginNotFound pe"
  shows "fst (ensureAuth execa X P w) = Inl (notInstalledError (engineName metadata)) \<and>
         ConsoleError (js ''  '' @ installCommand metadata @ [10]) \<in>
           set (trace (snd (ensureAuth execa X P w)))"
proof -
  let ?home = "localHomePath X P None"
  let ?auth = "getAuthFilePath ?home"
  obtain t where m: "mkdirs [] ?home (nodes w) = (None, t)"
    using home by (cases "mkdirs [] ?home (nodes w)") (simp add: mkdir_ok_iff)
  let ?w1 = "\<lparr> nodes = t, trace = trace w @ [Mkdir ?home] \<rparr>"
  have r: "resolveLocalHome X P None w = (Inr ?home, ?w1)"
    using m by (simp add: resolveLocalHome_def mkdir_recursive_eq bindIO_def returnIO_def Let_def)
  have a: "t ?auth = None"
    using mkdirs_keeps_child [OF m] absent by (simp add: getAuthFilePath_def)
  let ?t3 = "snd (execa (cliBinary metadata) [js ''version''] versionProbe t)"
  let ?w3 = "\<lparr> nodes = ?t3,
               trace = trace w @ [Mkdir ?home, Stat ?auth, Exec (cliBinary metadata) [js ''version'']] \<rparr>"
  have lg: "fst (bindIO (attempt execa (cliBinary metadata) [js ''status'']
                         (loginOptions (js ''LOCAL_HOME'') (show_path X ?home)))
              (\<lambda>outcome.
                 case outcome of
                   Inr r \<Rightarrow> returnIO ()
                 | Inl error \<Rightarrow>
                     if loginNotFound error
                     then bindIO (notFoundBanner (engineName metadata) (cliBinary metadata)
                                    (js ''login'') (installCommand metadata))
                            (\<lambda>u. throwIO (notInstalledError (engineName metadata)))
                     else throwIO (ProcError error)) ?w3) = Inl (notInstalledError (engineName metadata)) \<and>
            ConsoleError (js ''  '' @ installCommand metadata @ [10]) \<in>
              set (trace (snd (bindIO (attempt execa (cliBinary metadata) [js ''status'']
                         (loginOptions (js ''LOCAL_HOME'') (show_path X ?home)))
              (\<lambda>outcome.
                 case outcome of
                   Inr r \<Rightarrow> returnIO ()
                 | Inl error \<Rightarrow>
                     if loginNotFound error
                     then bindIO (notFoundBanner (engineName metadata) (cliBinary metadata)
                                    (js ''login'') (installCommand metadata))
                            (\<lambda>u. throwIO (notInstalledError (engineName metadata)))
                     else throwIO (ProcError error)) ?w3)))"
    using login m
    by (simp add: bindIO_def attempt_eq notFoundBanner_result throwIO_def returnIO_def)
  have "ensureAuth execa X P w =
      bindIO (bindIO (attempt execa (cliBinary metadata) [js ''status'']
                         (loginOptions (js ''LOCAL_HOME'') (show_path X ?home)))
              (\<lambda>outcome.
                 case outcome of
                   Inr r \<Rightarrow> returnIO ()
                 | Inl error \<Rightarrow>
                     if loginNotFound error
                     then bindIO (notFoundBanner (engineName metadata) (cliBinary metadata)
                                    (js ''login'') (installCommand metadata))
                            (\<lambda>u. throwIO (notInstalledError (engineName metadata)))
                     else throwIO (ProcError error)))
        (\<lambda>u. bindIO (catchIO (stat ?auth) (\<lambda>e. writeFile ?auth (js ''{}'')))
                (\<lambda>u. returnIO True)) ?w3"
    using skip a probe m
    by (simp add: ensureAuth_def bindIO_def [of "resolveLocalHome X P None"]
        bindIO_def [of "catchIO (bindIO (stat ?auth) (\<lambda>u. returnIO True)) (\<lambda>e. returnIO False)"]
        bindIO_def [of "isCliInstalled execa (cliBinary metadata)"]
        r stat_found isCliInstalled_result Let_def)
  with lg show ?thesis
    by (simp add: bindIO_def split: prod.splits sum.splits)
qed

section \<open>The example data evaluated\<close>

lemma example_home:
  "localHomePath example_paths example_process None =
     [js ''home'', js ''u'', js ''.codemachine'', js ''local'']"
  by (simp add: localHomePath_def example_paths_def example_process_def example_env_def)

lemma example_home_skip:
  "localHomePath example_paths (example_env [(''CODEMACHINE_SKIP_AUTH'', ''1'')]) None =
     [js ''home'', js ''u'', js ''.codemachine'', js ''local'']"
  by (simp add: localHomePath_def example_paths_def example_env_def)

lemma example_home_blocked:
  "localHomePath example_paths (example_env [(''LOCAL_HOME'', ''blocked'')]) None =
     [js ''blocked'']"
  by (simp add: localHomePath_def example_paths_def example_env_def)

lemma example_config_dir:
  "resolveClaudeConfigDir example_paths (example_env kvs) None =
     (if env_truthy (example_env kvs) (js ''CLAUDE_CONFIG_DIR'')
      then [the (process_env (example_env kvs) (js ''CLAUDE_CONFIG_DIR''))]
      else [js ''home'', js ''u'', js ''.codemachine'', js ''claude''])"
  by (simp add: resolveClaudeConfigDir_def example_paths_def example_env_def)

lemma example_mkdir_local:
  "fst (mkdir_recursive [js ''home'', js ''u'', js ''.codemachine'', js ''local''] example_root) =
     Inr ()"
  by (simp add: mkdir_ok_iff example_root_def)

lemma example_mkdir_claude:
  "fst (mkdir_recursive [js ''home'', js ''u'', js ''.codemachine'', js ''claude''] example_root) =
     Inr ()"
  by (simp add: mkdir_ok_iff example_root_def)

lemma example_dirs:
  "workspaceDir example_paths example_process = [js ''work'']"
  "cmRootOf example_paths example_process = [js ''work'', js ''.codemachine'']"
  "agentsDirOf example_paths example_process = [js ''work'', js ''.codemachine'', js ''agents'']"
  by (simp_all add: agentsDirOf_def cmRootOf_def workspaceDir_def example_process_def
      example_env_def env_truthy_def)


text \<open>With \<open>LOCAL_HOME\<close> set to the empty string the local engine cannot resolve its home.\<close>

lemma example_home_empty_string:
  "fst (isAuthenticated example_paths (example_env [(''LOCAL_HOME'', [])]) example_root) =
     Inl (FsError ENOENT [[]])"
  "fst (clearAuth example_paths (example_env [(''LOCAL_HOME'', [])]) example_root) =
     Inl (FsError ENOENT [[]])"
  by (simp_all add: isAuthenticated_def clearAuth_def resolveLocalHome_def localHomePath_def
      example_paths_def example_env_def mkdir_recursive_def example_root_def io_defs Let_def)

section \<open>Properties of the template selection\<close>

lemma calls_append [simp]: "calls (a @ b) = calls a @ calls b"
  by (simp add: calls_def)

lemma calls_simps [simp]:
  "calls [] = []"
  "calls (ConsoleLog s # tr) = calls tr"
  "calls (ConsoleError s # tr) = calls tr"
  "calls (HasTemplateChanged p n # tr) = HasTemplateChanged p n # calls tr"
  "calls (SetActiveTemplate p n # tr) = SetActiveTemplate p n # calls tr"
  "calls (BootstrapWorkspace p q # tr) = BootstrapWorkspace p q # calls tr"
  "calls (ExistsSync p # tr) = ExistsSync p # calls tr"
  "calls (RmRecursive p # tr) = RmRecursive p # calls tr"
  by (simp_all add: calls_def isConsole_def)

lemma logSteps_result:
  "\<exists>evs. logSteps i ss w = (Inr (), w\<lparr>trace := trace w @ evs\<rparr>) \<and> calls evs = []"
proof (induction ss arbitrary: i w)
  case Nil
  show ?case by (rule exI [of _ "[]"]) (simp add: returnIO_def)
next
  case (Cons s ss)
  let ?line = "ConsoleLog (js ''  '' @ show_nat (Suc i) @ js ''. '' @ agentName s @
                         js '' ['' @ agentId s @ js '']'')"
  from Cons [of "Suc i" "w\<lparr>trace := trace w @ [?line]\<rparr>"]
  obtain evs where e: "logSteps (Suc i) ss (w\<lparr>trace := trace w @ [?line]\<rparr>) =
      (Inr (), w\<lparr>trace := trace w @ ?line # evs\<rparr>)" "calls evs = []"
    by auto
  show ?case
    by (rule exI [of _ "?line # evs"]) (simp add: bindIO_def consoleLog_def emit_def e)
qed

lemma selection_prologue:
  "\<exists>evs. bindIO (consoleLog a) (\<lambda>u. bindIO (consoleLog b) (\<lambda>u. bindIO (consoleLog c) (\<lambda>u.
          bindIO (logSteps 0 ss) (\<lambda>u. k)))) w = k (w\<lparr>trace := trace w @ evs\<rparr>) \<and>
         calls evs = []"
proof -
  let ?w3 = "w\<lparr>trace := trace w @ [ConsoleLog a, ConsoleLog b, ConsoleLog c]\<rparr>"
  from logSteps_result [of 0 ss ?w3]
  obtain evs where e: "logSteps 0 ss ?w3 = (Inr (), ?w3\<lparr>trace := trace ?w3 @ evs\<rparr>)"
    "calls evs = []" by blast
  show ?thesis
    by (rule exI [of _ "[ConsoleLog a, ConsoleLog b, ConsoleLog c] @ evs"])
       (simp add: bindIO_def consoleLog_def emit_def e)
qed

lemma selection_changed:
  assumes changed: "hasTemplateChanged K (cmRootOf X P) (basename file) (nodes w) = Inr True"
    and active: "setActiveTemplate K (cmRootOf X P) (basename file)
                   (withoutAgents X P (nodes w)) = (Inr (), t)"
  shows "fst (handleTemplateSelectionSuccess K X P template file w) =
           fst (bootstrapWorkspace K (workspaceDir X P) file t) \<and>
         nodes (snd (handleTemplateSelectionSuccess K X P template file w)) =
           snd (bootstrapWorkspace K (workspaceDir X P) file t) \<and>
         calls (trace (snd (handleTemplateSelectionSuccess K X P template file w))) =
           calls (trace w) @
           [HasTemplateChanged (cmRootOf X P) (basename file), ExistsSync (agentsDirOf X P)] @
           (if nodes w (agentsDirOf X P) \<noteq> None then [RmRecursive (agentsDirOf X P)] else []) @
           [SetActiveTemplate (cmRootOf X P) (basename file),
            BootstrapWorkspace (workspaceDir X P) file]"
proof -
  let ?k = "bindIO (call_hasTemplateChanged K (cmRootOf X P) (basename file)) (\<lambda>changed.
         bindIO
           (if changed
            then
              bindIO (consoleLog ([10] @ [0xD83D, 0xDD04] @
                                  js '' Template changed, regenerating agents...'')) (\<lambda>u.
              bindIO (existsSync (agentsDirOf X P)) (\<lambda>present.
              bindIO (if present then rm_recursive (agentsDirOf X P) else returnIO ()) (\<lambda>u.
              bindIO (call_setActiveTemplate K (cmRootOf X P) (basename file)) (\<lambda>u.
              bindIO (call_bootstrapWorkspace K (workspaceDir X P) file) (\<lambda>u.
              consoleLog ([0x2705] @ js '' Agents regenerated successfully''))))))
            else
              bindIO (consoleLog ([10] @ [0x2713] @
                                  js '' Template unchanged, agents folder up to date'')) (\<lambda>u.
              call_setActiveTemplate K (cmRootOf X P) (basename file)))
           (\<lambda>u.
         consoleLog ([10] @ [0x2705] @
                     js '' Template saved to .codemachine/template.json'')))"
  from selection_prologue [of "[10] @ js ''Selected: '' @ template_name template"
      "js ''Template path: '' @ relative X (process_cwd P) file" "[10] @ js ''Steps:''"
      "steps template" ?k w]
  obtain evs where e: "handleTemplateSelectionSuccess K X P template file w =
      ?k (w\<lparr>trace := trace w @ evs\<rparr>)" and c: "calls evs = []"
    unfolding handleTemplateSelectionSuccess_def Let_def by blast
  obtain r t' where b: "bootstrapWorkspace K (workspaceDir X P) file t = (r, t')"
    by (cases "bootstrapWorkspace K (workspaceDir X P) file t")
  show ?thesis
  proof (cases "nodes w (agentsDirOf X P) = None")
    case True
    with active have "setActiveTemplate K (cmRootOf X P) (basename file) (nodes w) = (Inr (), t)"
      by (simp add: withoutAgents_def)
    with True changed b c show ?thesis
      by (cases r)
         (simp_all add: e bindIO_def call_hasTemplateChanged_def call_setActiveTemplate_def
          call_bootstrapWorkspace_def existsSync_def consoleLog_def emit_def returnIO_def)
  next
    case False
    with active have "setActiveTemplate K (cmRootOf X P) (basename file)
        (\<lambda>q. if below (agentsDirOf X P) q then None else nodes w q) = (Inr (), t)"
      by (simp add: withoutAgents_def)
    with False changed b c show ?thesis
      by (cases r)
         (simp_all add: e bindIO_def call_hasTemplateChanged_def call_setActiveTemplate_def
          call_bootstrapWorkspace_def existsSync_def rm_recursive_def consoleLog_def emit_def
          cong: if_cong)
  qed
qed

lemma selection_unchanged:
  assumes same: "hasTemplateChanged K (cmRootOf X P) (basename file) (nodes w) = Inr False"
  shows "fst (handleTemplateSelectionSuccess K X P template file w) =
           fst (setActiveTemplate K (cmRootOf X P) (basename file) (nodes w)) \<and>
         nodes (snd (handleTemplateSelectionSuccess K X P template file w)) =
           snd (setActiveTemplate K (cmRootOf X P) (basename file) (nodes w)) \<and>
         calls (trace (snd (handleTemplateSelectionSuccess K X P template file w))) =
           calls (trace w) @
           [HasTemplateChanged (cmRootOf X P) (basename file),
            SetActiveTemplate (cmRootOf X P) (basename file)]"
proof -
  let ?k = "bindIO (call_hasTemplateChanged K (cmRootOf X P) (basename file)) (\<lambda>changed.
         bindIO
           (if changed
            then
              bindIO (consoleLog ([10] @ [0xD83D, 0xDD04] @
                                  js '' Template changed, regenerating agents...'')) (\<lambda>u.
              bindIO (existsSync (agentsDirOf X P)) (\<lambda>present.
              bindIO (if present then rm_recursive (agentsDirOf X P) else returnIO ()) (\<lambda>u.
              bindIO (call_setActiveTemplate K (cmRootOf X P) (basename file)) (\<lambda>u.
              bindIO (call_bootstrapWorkspace K (workspaceDir X P) file) (\<lambda>u.
              consoleLog ([0x2705] @ js '' Agents regenerated successfully''))))))
            else
              bindIO (consoleLog ([10] @ [0x2713] @
                                  js '' Template unchanged, agents folder up to date'')) (\<lambda>u.
              call_setActiveTemplate K (cmRootOf X P) (basename file)))
           (\<lambda>u.
         consoleLog ([10] @ [0x2705] @
                     js '' Template saved to .codemachine/template.json'')))"
  from selection_prologue [of "[10] @ js ''Selected: '' @ template_name template"
      "js ''Template path: '' @ relative X (process_cwd P) file" "[10] @ js ''Steps:''"
      "steps template" ?k w]
  obtain evs where e: "handleTemplateSelectionSuccess K X P template file w =
      ?k (w\<lparr>trace := trace w @ evs\<rparr>)" and c: "calls evs = []"
    unfolding handleTemplateSelectionSuccess_def Let_def by blast
  obtain r t' where b: "setActiveTemplate K (cmRootOf X P) (basename file) (nodes w) = (r, t')"
    by (cases "setActiveTemplate K (cmRootOf X P) (basename file) (nodes w)")
  show ?thesis
    using same b c
    by (cases r)
       (simp_all add: e bindIO_def call_hasTemplateChanged_def call_setActiveTemplate_def
        consoleLog_def emit_def)
qed



section \<open>Claims about the local runner\<close>

text \<open>
  C1. The normalization is claimed to replace each carriage-return-terminated run within
  a line by only the text following the last CR, as the comment above the first
  replacement says too. With two carriage returns in one line the expression matches
  once, up to the text before the second CR: \<open>^\<close> does not hold behind that text, and the
  dot does not cross a CR. For \<open>a\rb\rc\<close> the text after the last CR is \<open>c\<close>, and the
  function returns \<open>b\nc\<close>.
\<close>

theorem normalize_second_carriage_return:
  "normalize False (js ''a'' @ [CR] @ js ''b'' @ [CR] @ js ''c'') = js ''b'' @ [LF] @ js ''c''"
  by code_simp


subsection \<open>Lines of a text\<close>

lemma split_on_not_Nil [simp]: "split_on c s \<noteq> []"
  by (induction s) (auto split: list.splits)

lemma join_split_on: "join [c] (split_on c s) = s"
proof (induction s)
  case Nil
  show ?case by simp
next
  case (Cons a s)
  obtain l ls where ls: "split_on c s = l # ls"
    by (cases "split_on c s") simp_all
  with Cons show ?case by (cases ls) auto
qed

lemma join_take_prefix: "0 < n \<Longrightarrow> \<exists>rest. join sep xs = join sep (take n xs) @ rest"
proof (induction xs arbitrary: n)
  case Nil
  show ?case by simp
next
  case (Cons x xs)
  from Cons.prems obtain m where n: "n = Suc m" by (cases n) auto
  show ?case
  proof (cases "m = 0 \<or> xs = []")
    case True
    then show ?thesis by (cases xs) (auto simp: n)
  next
    case False
    then obtain y ys where xs: "xs = y # ys" by (cases xs) auto
    from False obtain k where m: "m = Suc k" by (cases m) auto
    from Cons.IH [of m] False obtain rest where
      "join sep xs = join sep (take m xs) @ rest" by auto
    then show ?thesis by (simp add: n xs m)
  qed
qed

lemma first_lines_prefix: "\<exists>rest. s = join [c] (take 10 (split_on c s)) @ rest"
  using join_take_prefix [of 10 "[c]" "split_on c s"] by (simp add: join_split_on)

text \<open>
  C4. When the child exits with a code other than 0, \<open>runLocal\<close> rejects with an error that
  names the code, and logs as diagnostics at most ten lines: the first lines of the
  trimmed stderr, or of the trimmed stdout when stderr holds nothing but white space, or
  a placeholder when both do. The logged text is an initial part of the chosen stream.
\<close>

theorem runLocal_nonzero_exit:
  assumes "prompt options \<noteq> []" and "workingDir options \<noteq> []"
    and "spawnProcess (spawnOptions B T stringify X P options) (initialState T options) =
           (Inr result, st)"
    and "exitCode result \<noteq> 0"
  shows "fst (runLocal B T stringify X spawnProcess P options) =
           Inl (Error (js ''Local CLI exited with code '' @ show_int (exitCode result))) \<and>
         (\<exists>entry. logged (snd (runLocal B T stringify X spawnProcess P options)) =
                     logged st @ [FailureLog entry] \<and>
                  log_exitCode entry = exitCode result \<and>
                  log_error entry = join [LF] (failureLines result)) \<and>
         length (failureLines result) \<le> 10 \<and>
         (trim (stderr result) \<noteq> [] \<longrightarrow>
            failureLines result = take 10 (split_on LF (trim (stderr result))) \<and>
            (\<exists>rest. trim (stderr result) = join [LF] (failureLines result) @ rest)) \<and>
         (trim (stderr result) = [] \<and> trim (stdout result) \<noteq> [] \<longrightarrow>
            failureLines result = take 10 (split_on LF (trim (stdout result))) \<and>
            (\<exists>rest. trim (stdout result) = join [LF] (failureLines result) @ rest)) \<and>
         (trim (stderr result) = [] \<and> trim (stdout result) = [] \<longrightarrow>
            failureLines result = [js ''no error output''])"
proof -
  have run: "runLocal B T stringify X spawnProcess P options =
      (Inl (Error (js ''Local CLI exited with code '' @ show_int (exitCode result))),
       st\<lparr>logged := logged st @
            [FailureLog \<lparr> log_exitCode = exitCode result,
               log_error = join [LF] (failureLines result),
               log_command =
                 command (spawnOptions B T stringify X P options) @ js '' '' @
                 join (js '' '') (args (spawnOptions B T stringify X P options)) \<rparr>]\<rparr>)"
    using assms by (simp add: runLocal_def Let_def)
  have none: "split_on LF (js ''no error output'') = [js ''no error output'']"
    unfolding js_def by simp
  have "length (failureLines result) \<le> 10"
    by (simp add: failureLines_def Let_def)
  moreover have "trim (stderr result) \<noteq> [] \<longrightarrow>
      (\<exists>rest. trim (stderr result) = join [LF] (failureLines result) @ rest)"
    using first_lines_prefix [of "trim (stderr result)" LF]
    by (simp add: failureLines_def Let_def)
  moreover have "trim (stderr result) = [] \<and> trim (stdout result) \<noteq> [] \<longrightarrow>
      (\<exists>rest. trim (stdout result) = join [LF] (failureLines result) @ rest)"
    using first_lines_prefix [of "trim (stdout result)" LF]
    by (simp add: failureLines_def Let_def)
  moreover have "trim (stderr result) = [] \<and> trim (stdout result) = [] \<longrightarrow>
      failureLines result = [js ''no error output'']"
    by (simp add: failureLines_def Let_def none)
  ultimately show ?thesis
    by (simp add: run failureLines_def Let_def)
qed

theorem runLocal_nonzero_exit_witness:
  "prompt example_options \<noteq> [] \<and> workingDir example_options \<noteq> [] \<and>
   exitCode \<lparr> stdout = [], stderr = js ''boom'' @ [LF] @ js ''more'' @ [LF], exitCode = 2 \<rparr> \<noteq> 0 \<and>
   fst (runLocal example_builtins example_telemetry example_stringify example_paths
          example_failing_child example_process example_options) =
     Inl (Error (js ''Local CLI exited with code '' @ show_int 2)) \<and>
   failureLines \<lparr> stdout = [], stderr = js ''boom'' @ [LF] @ js ''more'' @ [LF], exitCode = 2 \<rparr> =
     [js ''boom'', js ''more'']"
proof -
  let ?result = "\<lparr> stdout = [], stderr = js ''boom'' @ [LF] @ js ''more'' @ [LF], exitCode = 2 \<rparr>"
  have 1: "prompt example_options \<noteq> []" and 2: "workingDir example_options \<noteq> []"
    by (simp_all add: example_options_def)
  have 3: "example_failing_child
             (spawnOptions example_builtins example_telemetry example_stringify example_paths
                example_process example_options)
             (initialState example_telemetry example_options) =
           (Inr ?result, initialState example_telemetry example_options)"
    by (simp add: example_failing_child_def)
  have 4: "exitCode ?result \<noteq> 0" by simp
  have fl: "failureLines ?result = [js ''boom'', js ''more'']"
    unfolding failureLines_def js_def trim_def by (simp add: isTrimmable_def)
  from runLocal_nonzero_exit [where spawnProcess = example_failing_child, OF 1 2 3 4]
  have "fst (runLocal example_builtins example_telemetry example_stringify example_paths
          example_failing_child example_process example_options) =
        Inl (Error (js ''Local CLI exited with code '' @ show_int 2))"
    by simp
  with 1 2 fl show ?thesis by simp
qed

text \<open>
  C9. Without a \<open>timeout\<close> option the options built for the process runner carry
  1800000 ms, the value of \<open>DEFAULT_TIMEOUT\<close>, and these are the options \<open>runLocal\<close> hands
  over: a runner that refuses every other timeout gives the same run, and a runner that
  answers with the timeout it was given as its exit code makes \<open>runLocal\<close> report exit
  code 1800000.
\<close>

theorem runLocal_default_timeout:
  assumes "timeout options = None"
  shows "spawn_timeout (spawnOptions B T stringify X P options) = DEFAULT_TIMEOUT \<and>
         DEFAULT_TIMEOUT = 1800000 \<and>
         runLocal B T stringify X spawnProcess P options =
         runLocal B T stringify X
           (\<lambda>opts st. if spawn_timeout opts = DEFAULT_TIMEOUT then spawnProcess opts st
                       else (Inl \<lparr> err_code = None, err_stderr = None,
                                   err_message = None \<rparr>, st))
           P options \<and>
         (prompt options \<noteq> [] \<and> workingDir options \<noteq> [] \<longrightarrow>
            runLocal B T stringify X
              (\<lambda>opts st. (Inr \<lparr> stdout = [], stderr = [],
                                  exitCode = int (spawn_timeout opts) \<rparr>, st))
              P options =
            (Inl (Error (js ''Local CLI exited with code '' @ show_int 1800000)),
             (initialState T options)
               \<lparr>logged :=
                  [FailureLog \<lparr> log_exitCode = 1800000,
                     log_error = js ''no error output'',
                     log_command =
                       command (spawnOptions B T stringify X P options) @ js '' '' @
                       join (js '' '') (args (spawnOptions B T stringify X P options)) \<rparr>]\<rparr>))"
proof -
  have 1: "spawn_timeout (spawnOptions B T stringify X P options) = DEFAULT_TIMEOUT"
    using assms by (simp add: spawnOptions_def Let_def DEFAULT_TIMEOUT_def)
  have 2: "DEFAULT_TIMEOUT = 1800000"
    by (simp add: DEFAULT_TIMEOUT_def)
  have 3: "runLocal B T stringify X spawnProcess P options =
         runLocal B T stringify X
           (\<lambda>opts st. if spawn_timeout opts = DEFAULT_TIMEOUT then spawnProcess opts st
                       else (Inl \<lparr> err_code = None, err_stderr = None,
                                   err_message = None \<rparr>, st))
           P options"
    using 1 by (simp add: runLocal_def Let_def)
  have lines: "failureLines \<lparr> stdout = [], stderr = [], exitCode = 1800000 \<rparr> =
      [js ''no error output'']"
    unfolding failureLines_def js_def trim_def by (simp add: isTrimmable_def)
  have 4: "runLocal B T stringify X
              (\<lambda>opts st. (Inr \<lparr> stdout = [], stderr = [],
                                  exitCode = int (spawn_timeout opts) \<rparr>, st))
              P options =
            (Inl (Error (js ''Local CLI exited with code '' @ show_int 1800000)),
             (initialState T options)
               \<lparr>logged :=
                  [FailureLog \<lparr> log_exitCode = 1800000,
                     log_error = js ''no error output'',
                     log_command =
                       command (spawnOptions B T stringify X P options) @ js '' '' @
                       join (js '' '') (args (spawnOptions B T stringify X P options)) \<rparr>]\<rparr>)"
    if "prompt options \<noteq> []" and "workingDir options \<noteq> []"
    using that 1 lines by (simp add: runLocal_def Let_def initialState_def DEFAULT_TIMEOUT_def)
  from 1 2 3 4 show ?thesis by blast
qed

theorem runLocal_default_timeout_witness:
  "timeout example_options = None \<and>
   prompt example_options \<noteq> [] \<and> workingDir example_options \<noteq> [] \<and>
   spawn_timeout (spawnOptions example_builtins example_telemetry example_stringify
                    example_paths example_process example_options) = 1800000 \<and>
   fst (runLocal example_builtins example_telemetry example_stringify example_paths
          (\<lambda>opts st. (Inr \<lparr> stdout = [], stderr = [],
                              exitCode = int (spawn_timeout opts) \<rparr>, st))
          example_process example_options) =
     Inl (Error (js ''Local CLI exited with code 1800000''))"
proof -
  have t: "timeout example_options = None"
    and p: "prompt example_options \<noteq> []" and d: "workingDir example_options \<noteq> []"
    by (simp_all add: example_options_def)
  have n: "show_int 1800000 = js ''1800000''"
    by (simp add: show_int_def show_nat.simps js_def)
  from runLocal_default_timeout [OF t, of example_builtins example_telemetry
          example_stringify example_paths example_process example_failing_child] t p d n
  show ?thesis
    by (simp add: js_def)
qed
section \<open>Claims about authentication\<close>

text \<open>
  C3, as claimed: \<open>isAuthenticated\<close> of both engines leaves the file system unchanged. The
  local engine resolves its home through \<open>resolveLocalHome\<close>, which creates the directory:
  on a file system with nothing but the root the call returns \<open>false\<close> and leaves
  \<open>/home/u/.codemachine/local\<close> behind.
\<close>

theorem isAuthenticated_creates_home_counterexample:
  "nodes example_root [js ''home'', js ''u'', js ''.codemachine'', js ''local''] = None \<and>
   fst (isAuthenticated example_paths example_process example_root) = Inr False \<and>
   nodes (snd (isAuthenticated example_paths example_process example_root))
     [js ''home'', js ''u'', js ''.codemachine'', js ''local''] = Some Dir"
  by (simp add: isAuthenticated_result example_home getAuthFilePath_def example_root_def Let_def)

text \<open>
  C3, amended. \<open>isAuthenticated\<close> of the Claude engine returns whether the token override
  is set to a non-empty value or the credential file exists, and leaves the file system
  unchanged. \<open>isAuthenticated\<close> of the local engine first creates its home directory: when
  that succeeds it returns whether the credential file exists, otherwise it rejects; in
  both cases everything that existed is unchanged, and all that is new are directories on
  the way to the home directory.
\<close>

theorem isAuthenticated_effects:
  "fst (isAuthenticated_claude X P options w) =
     Inr (env_truthy P (js ''CLAUDE_CODE_OAUTH_TOKEN'') \<or>
          nodes w (getCredentialsPath (resolveClaudeConfigDir X P options)) \<noteq> None) \<and>
   nodes (snd (isAuthenticated_claude X P options w)) = nodes w \<and>
   (fst (mkdir_recursive (localHomePath X P None) w) = Inr () \<longrightarrow>
      fst (isAuthenticated X P w) =
        Inr (nodes w (getAuthFilePath (localHomePath X P None)) \<noteq> None)) \<and>
   (fst (mkdir_recursive (localHomePath X P None) w) \<noteq> Inr () \<longrightarrow>
      (\<exists>e. fst (isAuthenticated X P w) = Inl e)) \<and>
   (\<forall>p. nodes w p \<noteq> None \<longrightarrow> nodes (snd (isAuthenticated X P w)) p = nodes w p) \<and>
   (\<forall>p. nodes w p = None \<and> nodes (snd (isAuthenticated X P w)) p \<noteq> None \<longrightarrow>
        nodes (snd (isAuthenticated X P w)) p = Some Dir \<and> below p (localHomePath X P None))"
proof -
  obtain r t where m: "mkdirs [] (localHomePath X P None) (nodes w) = (r, t)"
    by (cases "mkdirs [] (localHomePath X P None) (nodes w)")
  have n: "nodes (snd (isAuthenticated X P w)) = t"
    using m by (simp add: isAuthenticated_result Let_def split: option.splits)
  have a: "\<forall>p. nodes w p \<noteq> None \<longrightarrow> t p = nodes w p"
    using mkdirs_preserves [OF m] by blast
  have b: "\<forall>p. nodes w p = None \<and> t p \<noteq> None \<longrightarrow>
             t p = Some Dir \<and> below p (localHomePath X P None)"
    using mkdirs_frame [OF m] by (metis append_Nil)
  show ?thesis
    using a b m
    by (simp add: n isAuthenticated_claude_result mkdir_ok_iff)
       (auto simp: isAuthenticated_result Let_def split: option.splits)
qed

theorem isAuthenticated_effects_witness:
  "fst (mkdir_recursive (localHomePath example_paths example_process None) example_root) = Inr () \<and>
   fst (isAuthenticated example_paths example_process example_root) = Inr False \<and>
   nodes example_root [] \<noteq> None \<and>
   nodes (snd (isAuthenticated example_paths example_process example_root)) [] = Some Dir \<and>
   fst (mkdir_recursive (localHomePath example_paths (example_env [(''LOCAL_HOME'', ''blocked'')])
          None) example_blocked) \<noteq> Inr () \<and>
   (\<exists>e. fst (isAuthenticated example_paths (example_env [(''LOCAL_HOME'', ''blocked'')])
             example_blocked) = Inl e)"
proof -
  have ok: "fst (mkdir_recursive (localHomePath example_paths example_process None) example_root)
            = Inr ()"
    by (simp add: example_home example_mkdir_local)
  have absent: "nodes example_root
      (getAuthFilePath (localHomePath example_paths example_process None)) = None"
    by (simp add: example_home getAuthFilePath_def example_root_def)
  have root: "nodes example_root [] \<noteq> None"
    by (simp add: example_root_def)
  have blocked: "fst (mkdir_recursive
      (localHomePath example_paths (example_env [(''LOCAL_HOME'', ''blocked'')]) None)
      example_blocked) \<noteq> Inr ()"
    by (simp add: example_home_blocked mkdir_ok_iff example_blocked_def)
  from isAuthenticated_effects [of example_paths example_process None example_root]
    ok absent root
  have "fst (isAuthenticated example_paths example_process example_root) = Inr False \<and>
        nodes (snd (isAuthenticated example_paths example_process example_root)) [] = Some Dir"
    by (auto simp: example_root_def)
  moreover
  from isAuthenticated_effects [of example_paths "example_env [(''LOCAL_HOME'', ''blocked'')]"
      None example_blocked] blocked
  have "\<exists>e. fst (isAuthenticated example_paths (example_env [(''LOCAL_HOME'', ''blocked'')])
             example_blocked) = Inl e"
    by blast
  ultimately show ?thesis using ok root blocked by simp
qed

text \<open>
  C6, as claimed: \<open>clearAuth\<close> never throws. The local engine creates its home directory
  outside the \<open>try\<close> block; with \<open>LOCAL_HOME\<close> naming an existing file the call rejects.
\<close>

theorem clearAuth_rejects_counterexample:
  "fst (clearAuth example_paths (example_env [(''LOCAL_HOME'', ''blocked'')]) example_blocked) =
     Inl (FsError EEXIST [js ''blocked''])"
  by (simp add: clearAuth_fst example_home_blocked example_blocked_def)

text \<open>
  C6, amended. \<open>clearAuth\<close> of the Claude engine returns normally from every state, and
  \<open>clearAuth\<close> of the local engine returns normally exactly when its home directory exists
  or can be created; a removal that fails is swallowed by both. A second call ends the
  way the first did and leaves the file system as the first call left it.
\<close>

theorem clearAuth_never_fails_after_home:
  "fst (clearAuth_claude X P options w) = Inr () \<and>
   fst (clearAuth_claude X P options (snd (clearAuth_claude X P options w))) = Inr () \<and>
   nodes (snd (clearAuth_claude X P options (snd (clearAuth_claude X P options w)))) =
     nodes (snd (clearAuth_claude X P options w)) \<and>
   (fst (mkdir_recursive (localHomePath X P None) w) = Inr () \<longrightarrow>
      fst (clearAuth X P w) = Inr ()) \<and>
   (fst (mkdir_recursive (localHomePath X P None) w) \<noteq> Inr () \<longrightarrow>
      (\<exists>e. fst (clearAuth X P w) = Inl e)) \<and>
   fst (clearAuth X P (snd (clearAuth X P w))) = fst (clearAuth X P w) \<and>
   nodes (snd (clearAuth X P (snd (clearAuth X P w)))) = nodes (snd (clearAuth X P w))"
proof -
  have "fst (mkdir_recursive (localHomePath X P None) w) = Inr () \<longrightarrow>
      fst (clearAuth X P w) = Inr ()"
    by (simp add: mkdir_ok_iff clearAuth_fst)
  moreover have "fst (mkdir_recursive (localHomePath X P None) w) \<noteq> Inr () \<longrightarrow>
      (\<exists>e. fst (clearAuth X P w) = Inl e)"
    by (auto simp: mkdir_ok_iff clearAuth_fst split: option.splits)
  ultimately show ?thesis
    using clearAuth_claude_idempotent [of X P options w] clearAuth_idempotent [of X P w]
    by blast
qed

theorem clearAuth_never_fails_after_home_witness:
  "fst (mkdir_recursive (localHomePath example_paths example_process None) example_root) = Inr () \<and>
   fst (clearAuth example_paths example_process example_root) = Inr () \<and>
   fst (clearAuth example_paths example_process
          (snd (clearAuth example_paths example_process example_root))) = Inr () \<and>
   fst (mkdir_recursive (localHomePath example_paths (example_env [(''LOCAL_HOME'', ''blocked'')])
          None) example_blocked) \<noteq> Inr () \<and>
   (\<exists>e. fst (clearAuth example_paths (example_env [(''LOCAL_HOME'', ''blocked'')])
             example_blocked) = Inl e)"
proof -
  have ok: "fst (mkdir_recursive (localHomePath example_paths example_process None) example_root)
            = Inr ()"
    by (simp add: example_home example_mkdir_local)
  have blocked: "fst (mkdir_recursive
      (localHomePath example_paths (example_env [(''LOCAL_HOME'', ''blocked'')]) None)
      example_blocked) \<noteq> Inr ()"
    by (simp add: example_home_blocked mkdir_ok_iff example_blocked_def)
  from clearAuth_never_fails_after_home [of example_paths example_process None example_root] ok
  have "fst (clearAuth example_paths example_process example_root) = Inr () \<and>
        fst (clearAuth example_paths example_process
          (snd (clearAuth example_paths example_process example_root))) = Inr ()"
    by simp
  moreover
  from clearAuth_never_fails_after_home [of example_paths
      "example_env [(''LOCAL_HOME'', ''blocked'')]" None example_blocked] blocked
  have "\<exists>e. fst (clearAuth example_paths (example_env [(''LOCAL_HOME'', ''blocked'')])
             example_blocked) = Inl e"
    by blast
  ultimately show ?thesis using ok blocked by simp
qed

text \<open>
  C7, as claimed: with the credential file missing and \<open>CODEMACHINE_SKIP_AUTH\<close> equal to
  \<open>1\<close>, \<open>ensureAuth\<close> of both engines writes the placeholder. The Claude engine looks at
  the token override first: with a token set it returns \<open>true\<close> and writes nothing.
\<close>

theorem ensureAuth_claude_token_first_counterexample:
  "process_env (example_env [(''CLAUDE_CODE_OAUTH_TOKEN'', ''tok''), (''CODEMACHINE_SKIP_AUTH'', ''1'')])
     (js ''CODEMACHINE_SKIP_AUTH'') = Some (js ''1'') \<and>
   nodes example_root [js ''home'', js ''u'', js ''.codemachine'', js ''claude'',
                       js ''.credentials.json''] = None \<and>
   fst (ensureAuth_claude example_claude_metadata example_no_binary example_paths
          (example_env [(''CLAUDE_CODE_OAUTH_TOKEN'', ''tok''), (''CODEMACHINE_SKIP_AUTH'', ''1'')])
          None example_root) = Inr True \<and>
   nodes (snd (ensureAuth_claude example_claude_metadata example_no_binary example_paths
          (example_env [(''CLAUDE_CODE_OAUTH_TOKEN'', ''tok''), (''CODEMACHINE_SKIP_AUTH'', ''1'')])
          None example_root))
     [js ''home'', js ''u'', js ''.codemachine'', js ''claude'', js ''.credentials.json''] = None"
  by (simp add: ensureAuth_claude_def env_truthy_def example_env_def returnIO_def
      example_root_def)

text \<open>
  C7, amended. Let the credential file be missing, \<open>CODEMACHINE_SKIP_AUTH\<close> equal \<open>1\<close> and
  the engine's directory exist or be creatable below an existing root; for the Claude
  engine let the token override be unset or empty as well. Then \<open>ensureAuth\<close> returns
  \<open>true\<close>, the credential path holds \<open>{}\<close>, and the calls made are the creation of the
  directory, the look at the credential path and the write: no child process runs.
\<close>

theorem ensureAuth_writes_placeholder:
  "(process_env P (js ''CODEMACHINE_SKIP_AUTH'') = Some (js ''1'') \<and>
    nodes w [] = Some Dir \<and>
    nodes w (getAuthFilePath (localHomePath X P None)) = None \<and>
    fst (mkdir_recursive (localHomePath X P None) w) = Inr () \<longrightarrow>
      fst (ensureAuth execa X P w) = Inr True \<and>
      nodes (snd (ensureAuth execa X P w)) (getAuthFilePath (localHomePath X P None)) =
        Some (File (js ''{}'')) \<and>
      trace (snd (ensureAuth execa X P w)) =
        trace w @ [Mkdir (localHomePath X P None),
                   Stat (getAuthFilePath (localHomePath X P None)),
                   WriteFile (getAuthFilePath (localHomePath X P None)) (js ''{}'')]) \<and>
   (\<not> env_truthy P (js ''CLAUDE_CODE_OAUTH_TOKEN'') \<and>
    process_env P (js ''CODEMACHINE_SKIP_AUTH'') = Some (js ''1'') \<and>
    nodes w [] = Some Dir \<and>
    nodes w (getCredentialsPath (resolveClaudeConfigDir X P options)) = None \<and>
    fst (mkdir_recursive (resolveClaudeConfigDir X P options) w) = Inr () \<longrightarrow>
      fst (ensureAuth_claude md execa X P options w) = Inr True \<and>
      nodes (snd (ensureAuth_claude md execa X P options w))
        (getCredentialsPath (resolveClaudeConfigDir X P options)) = Some (File (js ''{}'')) \<and>
      trace (snd (ensureAuth_claude md execa X P options w)) =
        trace w @ [Stat (getCredentialsPath (resolveClaudeConfigDir X P options)),
                   Mkdir (resolveClaudeConfigDir X P options),
                   WriteFile (getCredentialsPath (resolveClaudeConfigDir X P options))
                     (js ''{}'')])"
proof (intro conjI impI)
  assume h: "process_env P (js ''CODEMACHINE_SKIP_AUTH'') = Some (js ''1'') \<and>
    nodes w [] = Some Dir \<and>
    nodes w (getAuthFilePath (localHomePath X P None)) = None \<and>
    fst (mkdir_recursive (localHomePath X P None) w) = Inr ()"
  then have e: "ensureAuth execa X P w =
           (Inr True,
            \<lparr> nodes = (snd (mkdirs [] (localHomePath X P None) (nodes w)))
                        (getAuthFilePath (localHomePath X P None) \<mapsto> File (js ''{}'')),
              trace = trace w @ [Mkdir (localHomePath X P None),
                                 Stat (getAuthFilePath (localHomePath X P None)),
                                 WriteFile (getAuthFilePath (localHomePath X P None)) (js ''{}'')] \<rparr>)"
    by (intro ensureAuth_skip) simp_all
  show "fst (ensureAuth execa X P w) = Inr True" by (simp add: e)
  show "nodes (snd (ensureAuth execa X P w)) (getAuthFilePath (localHomePath X P None)) =
        Some (File (js ''{}''))" by (simp add: e)
  show "trace (snd (ensureAuth execa X P w)) =
        trace w @ [Mkdir (localHomePath X P None),
                   Stat (getAuthFilePath (localHomePath X P None)),
                   WriteFile (getAuthFilePath (localHomePath X P None)) (js ''{}'')]"
    by (simp add: e)
next
  assume h: "\<not> env_truthy P (js ''CLAUDE_CODE_OAUTH_TOKEN'') \<and>
    process_env P (js ''CODEMACHINE_SKIP_AUTH'') = Some (js ''1'') \<and>
    nodes w [] = Some Dir \<and>
    nodes w (getCredentialsPath (resolveClaudeConfigDir X P options)) = None \<and>
    fst (mkdir_recursive (resolveClaudeConfigDir X P options) w) = Inr ()"
  then have e: "ensureAuth_claude md execa X P options w =
           (Inr True,
            \<lparr> nodes = (snd (mkdirs [] (resolveClaudeConfigDir X P options) (nodes w)))
                        (getCredentialsPath (resolveClaudeConfigDir X P options) \<mapsto>
                           File (js ''{}'')),
              trace = trace w @
                [Stat (getCredentialsPath (resolveClaudeConfigDir X P options)),
                 Mkdir (resolveClaudeConfigDir X P options),
                 WriteFile (getCredentialsPath (resolveClaudeConfigDir X P options))
                   (js ''{}'')] \<rparr>)"
    by (intro ensureAuth_claude_skip) simp_all
  show "fst (ensureAuth_claude md execa X P options w) = Inr True" by (simp add: e)
  show "nodes (snd (ensureAuth_claude md execa X P options w))
        (getCredentialsPath (resolveClaudeConfigDir X P options)) = Some (File (js ''{}''))"
    by (simp add: e)
  show "trace (snd (ensureAuth_claude md execa X P options w)) =
        trace w @ [Stat (getCredentialsPath (resolveClaudeConfigDir X P options)),
                   Mkdir (resolveClaudeConfigDir X P options),
                   WriteFile (getCredentialsPath (resolveClaudeConfigDir X P options))
                     (js ''{}'')]"
    by (simp add: e)
qed

theorem ensureAuth_writes_placeholder_witness:
  "process_env (example_env [(''CODEMACHINE_SKIP_AUTH'', ''1'')]) (js ''CODEMACHINE_SKIP_AUTH'') =
     Some (js ''1'') \<and>
   \<not> env_truthy (example_env [(''CODEMACHINE_SKIP_AUTH'', ''1'')]) (js ''CLAUDE_CODE_OAUTH_TOKEN'') \<and>
   nodes example_root [] = Some Dir \<and>
   fst (ensureAuth example_no_binary example_paths
          (example_env [(''CODEMACHINE_SKIP_AUTH'', ''1'')]) example_root) = Inr True \<and>
   nodes (snd (ensureAuth example_no_binary example_paths
          (example_env [(''CODEMACHINE_SKIP_AUTH'', ''1'')]) example_root))
     [js ''home'', js ''u'', js ''.codemachine'', js ''local'', js ''auth.json''] =
     Some (File (js ''{}'')) \<and>
   fst (ensureAuth_claude example_claude_metadata example_no_binary example_paths
          (example_env [(''CODEMACHINE_SKIP_AUTH'', ''1'')]) None example_root) = Inr True \<and>
   nodes (snd (ensureAuth_claude example_claude_metadata example_no_binary example_paths
          (example_env [(''CODEMACHINE_SKIP_AUTH'', ''1'')]) None example_root))
     [js ''home'', js ''u'', js ''.codemachine'', js ''claude'', js ''.credentials.json''] =
     Some (File (js ''{}''))"
proof -
  let ?P = "example_env [(''CODEMACHINE_SKIP_AUTH'', ''1'')]"
  have skip: "process_env ?P (js ''CODEMACHINE_SKIP_AUTH'') = Some (js ''1'')"
    by (simp add: example_env_def)
  have token: "\<not> env_truthy ?P (js ''CLAUDE_CODE_OAUTH_TOKEN'')"
    by (simp add: example_env_def env_truthy_def)
  have root: "nodes example_root [] = Some Dir"
    by (simp add: example_root_def)
  have dir: "resolveClaudeConfigDir example_paths ?P None =
      [js ''home'', js ''u'', js ''.codemachine'', js ''claude'']"
    by (simp add: example_config_dir) (simp add: example_env_def env_truthy_def)
  have a1: "nodes example_root (getAuthFilePath (localHomePath example_paths ?P None)) = None"
    by (simp add: example_home_skip getAuthFilePath_def example_root_def)
  have a2: "nodes example_root
      (getCredentialsPath (resolveClaudeConfigDir example_paths ?P None)) = None"
    by (simp add: dir getCredentialsPath_def example_root_def)
  have m1: "fst (mkdir_recursive (localHomePath example_paths ?P None) example_root) = Inr ()"
    by (simp add: example_home_skip example_mkdir_local)
  have m2: "fst (mkdir_recursive (resolveClaudeConfigDir example_paths ?P None) example_root) =
      Inr ()"
    by (simp add: dir example_mkdir_claude)
  from ensureAuth_writes_placeholder [of ?P example_root example_paths example_no_binary None
      example_claude_metadata] skip token root a1 a2 m1 m2
  show ?thesis
    by (simp add: example_home_skip dir getAuthFilePath_def getCredentialsPath_def)
qed

text \<open>
  C10, as claimed: whenever \<open>CLAUDE_CODE_OAUTH_TOKEN\<close> is set, \<open>isAuthenticated\<close> returns
  \<open>true\<close>. The test is for a truthy value: set to the empty string, the variable does not
  count, and without a credential file the answer is \<open>false\<close>.
\<close>

theorem empty_token_counterexample:
  "process_env (example_env [(''CLAUDE_CODE_OAUTH_TOKEN'', '''')]) (js ''CLAUDE_CODE_OAUTH_TOKEN'') =
     Some [] \<and>
   fst (isAuthenticated_claude example_paths (example_env [(''CLAUDE_CODE_OAUTH_TOKEN'', '''')])
          None example_root) = Inr False"
  by (simp add: isAuthenticated_claude_result example_config_dir getCredentialsPath_def
      example_root_def)
     (simp add: example_env_def env_truthy_def js_def)

text \<open>
  C10, amended. If \<open>CLAUDE_CODE_OAUTH_TOKEN\<close> is set to a non-empty value, \<open>isAuthenticated\<close>
  and \<open>ensureAuth\<close> of the Claude engine return \<open>true\<close> without a single call to the file
  system or to a child process, and \<open>isAuthenticated\<close> still returns \<open>true\<close> after
  \<open>clearAuth\<close>. \<open>clearAuth\<close> followed by \<open>isAuthenticated\<close> yields \<open>false\<close> only when the token
  is unset or empty.
\<close>

theorem claude_token_override:
  "(env_truthy P (js ''CLAUDE_CODE_OAUTH_TOKEN'') \<longrightarrow>
      isAuthenticated_claude X P options w = (Inr True, w) \<and>
      ensureAuth_claude md execa X P options w = (Inr True, w) \<and>
      fst (isAuthenticated_claude X P options (snd (clearAuth_claude X P options w))) =
        Inr True) \<and>
   (fst (isAuthenticated_claude X P options (snd (clearAuth_claude X P options w))) =
      Inr False \<longrightarrow>
    \<not> env_truthy P (js ''CLAUDE_CODE_OAUTH_TOKEN''))"
  by (simp add: isAuthenticated_claude_result ensureAuth_claude_def returnIO_def)

theorem claude_token_override_witness:
  "env_truthy (example_env [(''CLAUDE_CODE_OAUTH_TOKEN'', ''tok'')]) (js ''CLAUDE_CODE_OAUTH_TOKEN'') \<and>
   isAuthenticated_claude example_paths (example_env [(''CLAUDE_CODE_OAUTH_TOKEN'', ''tok'')])
     None example_root = (Inr True, example_root) \<and>
   ensureAuth_claude example_claude_metadata example_no_binary example_paths
     (example_env [(''CLAUDE_CODE_OAUTH_TOKEN'', ''tok'')]) None example_root =
     (Inr True, example_root) \<and>
   fst (isAuthenticated_claude example_paths example_process None
          (snd (clearAuth_claude example_paths example_process None example_root))) =
     Inr False \<and>
   \<not> env_truthy example_process (js ''CLAUDE_CODE_OAUTH_TOKEN'')"
proof -
  have t: "env_truthy (example_env [(''CLAUDE_CODE_OAUTH_TOKEN'', ''tok'')])
             (js ''CLAUDE_CODE_OAUTH_TOKEN'')"
    by (simp add: example_env_def env_truthy_def)
  have f: "fst (isAuthenticated_claude example_paths example_process None
          (snd (clearAuth_claude example_paths example_process None example_root))) =
     Inr False"
    by (simp add: isAuthenticated_claude_result clearAuth_claude_def removeAll_result
        example_process_def example_config_dir getCredentialsPath_def getClaudeAuthPaths_def
        example_root_def del: removeAll.simps)
       (simp add: example_env_def env_truthy_def)
  from claude_token_override [of "example_env [(''CLAUDE_CODE_OAUTH_TOKEN'', ''tok'')]"
      example_paths None example_root example_claude_metadata example_no_binary] t
    claude_token_override [of example_process example_paths None example_root
      example_claude_metadata example_no_binary] f
  show ?thesis by simp
qed

section \<open>The missing binary\<close>

lemma notAvailableMessage_names_install:
  "\<exists>before. notAvailableMessage cmd = before @ installCommand metadata"
  by (rule exI [of _ "[39] @ cmd @ [39] @
        js '' is not available on this system. Please install '' @
        engineName metadata @ js '' first:'' @ [10] @ js ''  ''"])
     (simp add: notAvailableMessage_def)

lemma runLocal_not_found:
  assumes "prompt options \<noteq> []" and "workingDir options \<noteq> []"
    and "spawnProcess (spawnOptions B T stringify X P options) (initialState T options) =
           (Inl error, st)"
    and "notFound error"
  shows "fst (runLocal B T stringify X spawnProcess P options) =
           Inl (Error (notAvailableMessage (cliCommand metadata)))"
  using assms
  by (simp add: runLocal_def Let_def) (simp add: spawnOptions_def buildLocalExecCommand_def Let_def)

text \<open>
  C5. When the process runner rejects with code \<open>ENOENT\<close> or with a message saying
  \<open>command not found\<close>, \<open>runLocal\<close> rejects with an error whose message ends with the
  install command of the metadata. \<open>ensureAuth\<close> of the local engine, once it gets as far
  as the binary (home directory present, no credential file, no skip flag), rejects and
  prints the install command on the console, both when the version probe does not
  answer with exit code 0 and when the login command is rejected as not found.
\<close>

theorem missing_binary_names_install_command:
  "(prompt options \<noteq> [] \<and> workingDir options \<noteq> [] \<and>
    spawnProcess (spawnOptions B T stringify X P options) (initialState T options) =
      (Inl error, st) \<and>
    (err_code error = Some (js ''ENOENT'') \<or>
     test_ci (js ''command not found'')
       (case err_message error of None \<Rightarrow> [] | Some m \<Rightarrow> m)) \<longrightarrow>
      fst (runLocal B T stringify X spawnProcess P options) =
        Inl (Error (notAvailableMessage (cliCommand metadata))) \<and>
      (\<exists>before. notAvailableMessage (cliCommand metadata) =
                 before @ installCommand metadata)) \<and>
   (fst (mkdir_recursive (localHomePath X P None) w) = Inr () \<and>
    nodes w (getAuthFilePath (localHomePath X P None)) = None \<and>
    process_env P (js ''CODEMACHINE_SKIP_AUTH'') \<noteq> Some (js ''1'') \<and>
    (\<forall>r. fst (execa (cliBinary metadata) [js ''version''] versionProbe
                (snd (mkdirs [] (localHomePath X P None) (nodes w)))) = Inr r \<longrightarrow>
         x_exitCode r \<noteq> Some 0) \<longrightarrow>
      fst (ensureAuth execa X P w) = Inl (notInstalledError (engineName metadata)) \<and>
      ConsoleError (js ''  '' @ installCommand metadata @ [10]) \<in>
        set (trace (snd (ensureAuth execa X P w)))) \<and>
   (fst (mkdir_recursive (localHomePath X P None) w) = Inr () \<and>
    nodes w (getAuthFilePath (localHomePath X P None)) = None \<and>
    process_env P (js ''CODEMACHINE_SKIP_AUTH'') \<noteq> Some (js ''1'') \<and>
    fst (execa (cliBinary metadata) [js ''version''] versionProbe
           (snd (mkdirs [] (localHomePath X P None) (nodes w)))) = Inr r \<and>
    x_exitCode r = Some 0 \<and>
    fst (execa (cliBinary metadata) [js ''status'']
           (loginOptions (js ''LOCAL_HOME'') (show_path X (localHomePath X P None)))
           (snd (execa (cliBinary metadata) [js ''version''] versionProbe
                   (snd (mkdirs [] (localHomePath X P None) (nodes w)))))) = Inl pe \<and>
    (err_code pe = Some (js ''ENOENT'') \<or>
     test_ci (js ''command not found'')
       (case err_stderr pe of
          None \<Rightarrow> (case err_message pe of None \<Rightarrow> [] | Some m \<Rightarrow> m)
        | Some s \<Rightarrow> if s \<noteq> [] then s
                     else (case err_message pe of None \<Rightarrow> [] | Some m \<Rightarrow> m))) \<longrightarrow>
      fst (ensureAuth execa X P w) = Inl (notInstalledError (engineName metadata)) \<and>
      ConsoleError (js ''  '' @ installCommand metadata @ [10]) \<in>
        set (trace (snd (ensureAuth execa X P w))))"
proof (intro conjI impI)
  assume h: "prompt options \<noteq> [] \<and> workingDir options \<noteq> [] \<and>
    spawnProcess (spawnOptions B T stringify X P options) (initialState T options) =
      (Inl error, st) \<and>
    (err_code error = Some (js ''ENOENT'') \<or>
     test_ci (js ''command not found'')
       (case err_message error of None \<Rightarrow> [] | Some m \<Rightarrow> m))"
  then have "notFound error" by (auto simp: notFound_def)
  with h show "fst (runLocal B T stringify X spawnProcess P options) =
        Inl (Error (notAvailableMessage (cliCommand metadata)))"
    by (intro runLocal_not_found [where st = st and error = error]) simp_all
  show "\<exists>before. notAvailableMessage (cliCommand metadata) = before @ installCommand metadata"
    by (rule notAvailableMessage_names_install)
next
  assume h: "fst (mkdir_recursive (localHomePath X P None) w) = Inr () \<and>
    nodes w (getAuthFilePath (localHomePath X P None)) = None \<and>
    process_env P (js ''CODEMACHINE_SKIP_AUTH'') \<noteq> Some (js ''1'') \<and>
    (\<forall>r. fst (execa (cliBinary metadata) [js ''version''] versionProbe
                (snd (mkdirs [] (localHomePath X P None) (nodes w)))) = Inr r \<longrightarrow>
         x_exitCode r \<noteq> Some 0)"
  then have "fst (ensureAuth execa X P w) = Inl (notInstalledError (engineName metadata)) \<and>
         ConsoleError (js ''  '' @ installCommand metadata @ [10]) \<in>
           set (trace (snd (ensureAuth execa X P w)))"
    by (intro ensureAuth_not_installed) auto
  then show "fst (ensureAuth execa X P w) = Inl (notInstalledError (engineName metadata))"
    and "ConsoleError (js ''  '' @ installCommand metadata @ [10]) \<in>
           set (trace (snd (ensureAuth execa X P w)))"
    by simp_all
next
  assume h: "fst (mkdir_recursive (localHomePath X P None) w) = Inr () \<and>
    nodes w (getAuthFilePath (localHomePath X P None)) = None \<and>
    process_env P (js ''CODEMACHINE_SKIP_AUTH'') \<noteq> Some (js ''1'') \<and>
    fst (execa (cliBinary metadata) [js ''version''] versionProbe
           (snd (mkdirs [] (localHomePath X P None) (nodes w)))) = Inr r \<and>
    x_exitCode r = Some 0 \<and>
    fst (execa (cliBinary metadata) [js ''status'']
           (loginOptions (js ''LOCAL_HOME'') (show_path X (localHomePath X P None)))
           (snd (execa (cliBinary metadata) [js ''version''] versionProbe
                   (snd (mkdirs [] (localHomePath X P None) (nodes w)))))) = Inl pe \<and>
    (err_code pe = Some (js ''ENOENT'') \<or>
     test_ci (js ''command not found'')
       (case err_stderr pe of
          None \<Rightarrow> (case err_message pe of None \<Rightarrow> [] | Some m \<Rightarrow> m)
        | Some s \<Rightarrow> if s \<noteq> [] then s
                     else (case err_message pe of None \<Rightarrow> [] | Some m \<Rightarrow> m)))"
  then have nf: "loginNotFound pe"
    by (auto simp: loginNotFound_def Let_def split: option.splits)
  from h nf have "fst (ensureAuth execa X P w) = Inl (notInstalledError (engineName metadata)) \<and>
         ConsoleError (js ''  '' @ installCommand metadata @ [10]) \<in>
           set (trace (snd (ensureAuth execa X P w)))"
    by (intro ensureAuth_login_not_found [where r = r and pe = pe]) simp_all
  then show "fst (ensureAuth execa X P w) = Inl (notInstalledError (engineName metadata))"
    and "ConsoleError (js ''  '' @ installCommand metadata @ [10]) \<in>
           set (trace (snd (ensureAuth execa X P w)))"
    by simp_all
qed

theorem missing_binary_names_install_command_witness:
  "prompt example_options \<noteq> [] \<and> workingDir example_options \<noteq> [] \<and>
   example_missing_binary
     (spawnOptions example_builtins example_telemetry example_stringify example_paths
        example_process example_options)
     (initialState example_telemetry example_options) =
     (Inl \<lparr> err_code = Some (js ''ENOENT''), err_stderr = None,
            err_message = Some (js ''spawn curl ENOENT'') \<rparr>,
      initialState example_telemetry example_options) \<and>
   fst (runLocal example_builtins example_telemetry example_stringify example_paths
          example_missing_binary example_process example_options) =
     Inl (Error (notAvailableMessage (js ''curl''))) \<and>
   fst (mkdir_recursive (localHomePath example_paths example_process None) example_root) = Inr () \<and>
   fst (ensureAuth example_no_binary example_paths example_process example_root) =
     Inl (Error (js ''Local'' @ js '' CLI is not installed.'')) \<and>
   ConsoleError (js ''  '' @ js ''Install LM Studio from https://lmstudio.ai/'' @ [10]) \<in>
     set (trace (snd (ensureAuth example_no_binary example_paths example_process example_root)))"
proof -
  let ?error = "\<lparr> err_code = Some (js ''ENOENT''), err_stderr = None,
                  err_message = Some (js ''spawn curl ENOENT'') \<rparr>"
  have 1: "prompt example_options \<noteq> []" and 2: "workingDir example_options \<noteq> []"
    by (simp_all add: example_options_def)
  have 3: "example_missing_binary
             (spawnOptions example_builtins example_telemetry example_stringify example_paths
                example_process example_options)
             (initialState example_telemetry example_options) =
           (Inl ?error, initialState example_telemetry example_options)"
    by (simp add: example_missing_binary_def)
  have 4: "err_code ?error = Some (js ''ENOENT'')"
    by simp
  have ok: "fst (mkdir_recursive (localHomePath example_paths example_process None) example_root)
            = Inr ()"
    by (simp add: example_home example_mkdir_local)
  have absent: "nodes example_root
      (getAuthFilePath (localHomePath example_paths example_process None)) = None"
    by (simp add: example_home getAuthFilePath_def example_root_def)
  have skip: "process_env example_process (js ''CODEMACHINE_SKIP_AUTH'') \<noteq> Some (js ''1'')"
    by (simp add: example_process_def example_env_def)
  have probe: "\<forall>r. fst (example_no_binary (cliBinary metadata) [js ''version''] versionProbe
                (snd (mkdirs [] (localHomePath example_paths example_process None)
                        (nodes example_root)))) = Inr r \<longrightarrow> x_exitCode r \<noteq> Some 0"
    by (auto simp: example_no_binary_def versionProbe_def)
  have md: "cliCommand metadata = js ''curl''" "engineName metadata = js ''Local''"
    "installCommand metadata = js ''Install LM Studio from https://lmstudio.ai/''"
    by (simp_all add: metadata_def)
  from missing_binary_names_install_command [where spawnProcess = example_missing_binary
      and options = example_options and B = example_builtins and T = example_telemetry
      and stringify = example_stringify and X = example_paths and P = example_process
      and error = ?error and st = "initialState example_telemetry example_options"
      and w = example_root and execa = example_no_binary] 1 2 3 4 ok absent skip probe
  have "fst (runLocal example_builtins example_telemetry example_stringify example_paths
          example_missing_binary example_process example_options) =
        Inl (Error (notAvailableMessage (cliCommand metadata))) \<and>
        fst (ensureAuth example_no_binary example_paths example_process example_root) =
          Inl (notInstalledError (engineName metadata)) \<and>
        ConsoleError (js ''  '' @ installCommand metadata @ [10]) \<in>
          set (trace (snd (ensureAuth example_no_binary example_paths example_process
                             example_root)))"
    by blast
  with 1 2 3 ok show ?thesis
    by (simp add: md notInstalledError_def)
qed

section \<open>Claim about the template selection\<close>

text \<open>
  C8. When the marker reports a change, everything at and below the agents directory is
  removed, the active template is recorded, and the file system is then what the
  workspace bootstrap makes of it; the calls made are, in this order, the marker query,
  the existence test, the removal (when the directory existed), \<open>setActiveTemplate\<close> and
  \<open>bootstrapWorkspace\<close>. When the marker reports no change, the file system is what
  \<open>setActiveTemplate\<close> makes of the initial one and no other call follows the marker
  query: if \<open>setActiveTemplate\<close> leaves the agents directory alone, it is unmodified.
\<close>

theorem template_selection_regenerates_agents:
  "(hasTemplateChanged K (cmRootOf X P) (basename file) (nodes w) = Inr True \<and>
    setActiveTemplate K (cmRootOf X P) (basename file) (withoutAgents X P (nodes w)) =
      (Inr (), t) \<longrightarrow>
      (nodes w (agentsDirOf X P) \<noteq> None \<longrightarrow>
         (\<forall>q. below (agentsDirOf X P) q \<longrightarrow> withoutAgents X P (nodes w) q = None)) \<and>
      fst (handleTemplateSelectionSuccess K X P template file w) =
        fst (bootstrapWorkspace K (workspaceDir X P) file t) \<and>
      nodes (snd (handleTemplateSelectionSuccess K X P template file w)) =
        snd (bootstrapWorkspace K (workspaceDir X P) file t) \<and>
      calls (trace (snd (handleTemplateSelectionSuccess K X P template file w))) =
        calls (trace w) @
        [HasTemplateChanged (cmRootOf X P) (basename file), ExistsSync (agentsDirOf X P)] @
        (if nodes w (agentsDirOf X P) \<noteq> None then [RmRecursive (agentsDirOf X P)] else []) @
        [SetActiveTemplate (cmRootOf X P) (basename file),
         BootstrapWorkspace (workspaceDir X P) file]) \<and>
   (hasTemplateChanged K (cmRootOf X P) (basename file) (nodes w) = Inr False \<longrightarrow>
      fst (handleTemplateSelectionSuccess K X P template file w) =
        fst (setActiveTemplate K (cmRootOf X P) (basename file) (nodes w)) \<and>
      nodes (snd (handleTemplateSelectionSuccess K X P template file w)) =
        snd (setActiveTemplate K (cmRootOf X P) (basename file) (nodes w)) \<and>
      calls (trace (snd (handleTemplateSelectionSuccess K X P template file w))) =
        calls (trace w) @
        [HasTemplateChanged (cmRootOf X P) (basename file),
         SetActiveTemplate (cmRootOf X P) (basename file)] \<and>
      ((\<forall>q. below (agentsDirOf X P) q \<longrightarrow>
            snd (setActiveTemplate K (cmRootOf X P) (basename file) (nodes w)) q = nodes w q) \<longrightarrow>
       (\<forall>q. below (agentsDirOf X P) q \<longrightarrow>
            nodes (snd (handleTemplateSelectionSuccess K X P template file w)) q = nodes w q)))"
proof (intro conjI impI)
  assume h: "hasTemplateChanged K (cmRootOf X P) (basename file) (nodes w) = Inr True \<and>
    setActiveTemplate K (cmRootOf X P) (basename file) (withoutAgents X P (nodes w)) =
      (Inr (), t)"
  then have c: "fst (handleTemplateSelectionSuccess K X P template file w) =
           fst (bootstrapWorkspace K (workspaceDir X P) file t) \<and>
         nodes (snd (handleTemplateSelectionSuccess K X P template file w)) =
           snd (bootstrapWorkspace K (workspaceDir X P) file t) \<and>
         calls (trace (snd (handleTemplateSelectionSuccess K X P template file w))) =
           calls (trace w) @
           [HasTemplateChanged (cmRootOf X P) (basename file), ExistsSync (agentsDirOf X P)] @
           (if nodes w (agentsDirOf X P) \<noteq> None then [RmRecursive (agentsDirOf X P)] else []) @
           [SetActiveTemplate (cmRootOf X P) (basename file),
            BootstrapWorkspace (workspaceDir X P) file]"
    by (intro selection_changed) simp_all
  from c show "fst (handleTemplateSelectionSuccess K X P template file w) =
        fst (bootstrapWorkspace K (workspaceDir X P) file t)" by simp
  from c show "nodes (snd (handleTemplateSelectionSuccess K X P template file w)) =
        snd (bootstrapWorkspace K (workspaceDir X P) file t)" by simp
  from c show "calls (trace (snd (handleTemplateSelectionSuccess K X P template file w))) =
        calls (trace w) @
        [HasTemplateChanged (cmRootOf X P) (basename file), ExistsSync (agentsDirOf X P)] @
        (if nodes w (agentsDirOf X P) \<noteq> None then [RmRecursive (agentsDirOf X P)] else []) @
        [SetActiveTemplate (cmRootOf X P) (basename file),
         BootstrapWorkspace (workspaceDir X P) file]" by simp
  assume "nodes w (agentsDirOf X P) \<noteq> None"
  then show "\<forall>q. below (agentsDirOf X P) q \<longrightarrow> withoutAgents X P (nodes w) q = None"
    by (simp add: withoutAgents_def)
next
  assume h: "hasTemplateChanged K (cmRootOf X P) (basename file) (nodes w) = Inr False"
  note c = selection_unchanged [OF h, of template]
  from c show "fst (handleTemplateSelectionSuccess K X P template file w) =
        fst (setActiveTemplate K (cmRootOf X P) (basename file) (nodes w))" by simp
  from c show n: "nodes (snd (handleTemplateSelectionSuccess K X P template file w)) =
        snd (setActiveTemplate K (cmRootOf X P) (basename file) (nodes w))" by simp
  from c show "calls (trace (snd (handleTemplateSelectionSuccess K X P template file w))) =
        calls (trace w) @
        [HasTemplateChanged (cmRootOf X P) (basename file),
         SetActiveTemplate (cmRootOf X P) (basename file)]" by simp
  assume "\<forall>q. below (agentsDirOf X P) q \<longrightarrow>
            snd (setActiveTemplate K (cmRootOf X P) (basename file) (nodes w)) q = nodes w q"
  then show "\<forall>q. below (agentsDirOf X P) q \<longrightarrow>
            nodes (snd (handleTemplateSelectionSuccess K X P template file w)) q = nodes w q"
    by (simp add: n)
qed

theorem template_selection_regenerates_agents_witness:
  "hasTemplateChanged example_collaborators (cmRootOf example_paths example_process)
     (basename [js ''templates'', js ''b.workflow.js'']) (nodes example_workspace) = Inr True \<and>
   nodes example_workspace [js ''work'', js ''.codemachine'', js ''agents'', js ''old.md''] =
     Some (File (js ''old'')) \<and>
   nodes (snd (handleTemplateSelectionSuccess example_collaborators example_paths example_process
                 example_template [js ''templates'', js ''b.workflow.js''] example_workspace))
     [js ''work'', js ''.codemachine'', js ''agents'', js ''old.md''] = None \<and>
   nodes (snd (handleTemplateSelectionSuccess example_collaborators example_paths example_process
                 example_template [js ''templates'', js ''b.workflow.js''] example_workspace))
     [js ''work'', js ''.codemachine'', js ''agents'', js ''new.md''] =
     Some (File (js ''b.workflow.js'')) \<and>
   hasTemplateChanged example_collaborators (cmRootOf example_paths example_process)
     (basename [js ''templates'', js ''a.workflow.js'']) (nodes example_workspace) = Inr False \<and>
   nodes (snd (handleTemplateSelectionSuccess example_collaborators example_paths example_process
                 example_template [js ''templates'', js ''a.workflow.js''] example_workspace))
     [js ''work'', js ''.codemachine'', js ''agents'', js ''old.md''] = Some (File (js ''old''))"
proof -
  let ?b = "[js ''templates'', js ''b.workflow.js'']"
  let ?a = "[js ''templates'', js ''a.workflow.js'']"
  let ?old = "[js ''work'', js ''.codemachine'', js ''agents'', js ''old.md'']"
  let ?t = "(withoutAgents example_paths example_process (nodes example_workspace))
              ([js ''work'', js ''.codemachine'', js ''template.json''] \<mapsto>
                 File (js ''b.workflow.js''))"
  have changed: "hasTemplateChanged example_collaborators
      (cmRootOf example_paths example_process) (basename ?b) (nodes example_workspace) = Inr True"
    by (simp add: example_collaborators_def example_dirs basename_def example_workspace_def)
  have same: "hasTemplateChanged example_collaborators
      (cmRootOf example_paths example_process) (basename ?a) (nodes example_workspace) = Inr False"
    by (simp add: example_collaborators_def example_dirs basename_def example_workspace_def)
  have active: "setActiveTemplate example_collaborators (cmRootOf example_paths example_process)
      (basename ?b) (withoutAgents example_paths example_process (nodes example_workspace)) =
      (Inr (), ?t)"
    by (simp add: example_collaborators_def example_dirs basename_def)
  have old: "nodes example_workspace ?old = Some (File (js ''old''))"
    by (simp add: example_workspace_def)
  have gone: "?t ?old = None"
    by (simp add: withoutAgents_def example_dirs example_workspace_def below_def)
  from template_selection_regenerates_agents [of example_collaborators example_paths
      example_process ?b example_workspace ?t example_template] changed active
  have "nodes (snd (handleTemplateSelectionSuccess example_collaborators example_paths
                 example_process example_template ?b example_workspace)) =
        snd (bootstrapWorkspace example_collaborators
               (workspaceDir example_paths example_process) ?b ?t)"
    by blast
  then have new: "nodes (snd (handleTemplateSelectionSuccess example_collaborators example_paths
                 example_process example_template ?b example_workspace)) ?old = None \<and>
      nodes (snd (handleTemplateSelectionSuccess example_collaborators example_paths
                 example_process example_template ?b example_workspace))
        [js ''work'', js ''.codemachine'', js ''agents'', js ''new.md''] =
        Some (File (js ''b.workflow.js''))"
    using gone by (simp add: example_collaborators_def example_dirs basename_def)
  from template_selection_regenerates_agents [of example_collaborators example_paths
      example_process ?a example_workspace ?t example_template] same
  have "nodes (snd (handleTemplateSelectionSuccess example_collaborators example_paths
                 example_process example_template ?a example_workspace)) =
        snd (setActiveTemplate example_collaborators (cmRootOf example_paths example_process)
               (basename ?a) (nodes example_workspace))"
    by blast
  then have kept: "nodes (snd (handleTemplateSelectionSuccess example_collaborators example_paths
                 example_process example_template ?a example_workspace)) ?old =
      Some (File (js ''old''))"
    by (simp add: example_collaborators_def example_dirs basename_def example_workspace_def)
  from changed same old new kept show ?thesis by simp
qed

end
